theory Spec2Isabelle
  imports Complex_Main "HOL-Library.Sublist" "HOL-Library.Log_Nat"
begin

section \<open>Data model\<close>

text \<open>
  Paths, session ids and messages are Python strings; \<open>datetime\<close> values are counted in
  seconds. A Python value that may be \<open>None\<close> (or a key that may be missing from a
  dictionary) is an \<open>option\<close>.
\<close>

type_synonym path = string
type_synonym datetime = int

text \<open>The exceptions the modelled code can meet.\<close>

datatype exn = OSError | ValueError | KeyError | AttributeError | TypeError
  | RequestException | DownloadError

text \<open>
  A progress payload: the dictionary handed to \<open>_update_progress\<close> in \<open>app.py\<close>. Every
  payload of the source has the keys \<open>status\<close> and \<open>message\<close>; the other keys are optional.
\<close>

record snapshot =
  status :: string
  message :: string
  percent :: "rat option"
  downloaded :: "rat option"
  total :: "rat option"

text \<open>
  \<open>models.DownloadTask\<close>. The columns \<open>status\<close> and \<open>message\<close> are called
  \<open>task_status\<close> and \<open>task_message\<close> here (the snapshot has fields of the same name);
  \<open>id\<close>, \<open>created_at\<close> and \<open>updated_at\<close> are filled by the database and read by no
  modelled code.
\<close>

record download_task =
  session_id :: string
  platform :: "string option"
  source_url :: "string option"
  direct_url :: "string option"
  requested_filename :: "string option"
  storage_path :: "path option"
  storage_type :: "string option"
  file_size :: "nat option"
  task_status :: "string option"
  task_message :: "string option"
  last_progress :: "snapshot option"
  last_accessed_at :: "datetime option"
  expires_at :: "datetime option"

text \<open>An entry of \<open>get_download_url.pending_downloads\<close>.\<close>

record download_info =
  info_video_url :: "string option"
  info_direct_url :: "string option"
  info_format_id :: "string option"
  info_filename :: "string option"
  info_platform :: "string option"

text \<open>
  The state the handlers and the sweeper share: the session registry (\<open>None\<close> until
  \<open>get_download_url\<close> has attached the attribute \<open>pending_downloads\<close> to itself), the
  progress store \<open>download_progress\<close>, the rows of the table \<open>download_tasks\<close>, and the
  file system (regular files with their sizes, and directories). \<open>progress_log\<close> is not
  a variable of the program: it records, in order, every payload \<open>_update_progress\<close>
  has written, so that the sequence of snapshots of a session can be spoken about.
\<close>

record state =
  pending_downloads :: "(string \<rightharpoonup> download_info) option"
  download_progress :: "string \<rightharpoonup> snapshot"
  tasks :: "download_task list"
  files :: "(path \<times> nat) list"
  dirs :: "path list"
  progress_log :: "(string \<times> snapshot) list"

text \<open>A URL as \<open>urllib.parse.urlparse\<close> returns it (the attributes the code reads).\<close>

record parsed_url =
  scheme :: string
  netloc :: string
  hostname :: "string option"

text \<open>The properties of an \<open>ipaddress\<close> address that the code reads.\<close>

record ip_address =
  is_private :: bool
  is_loopback :: bool
  is_reserved :: bool
  is_link_local :: bool

text \<open>An entry of the \<open>formats\<close> list that \<open>extract_bilibili_tv_info\<close> returns.\<close>

record fmt =
  fmt_format_id :: string
  fmt_url :: string

text \<open>The value of a numeric HTTP header as \<open>int(...)\<close> reads it: the header may be
  missing, hold an integer, or hold text on which \<open>int\<close> raises \<open>ValueError\<close>.\<close>

datatype header_int = Missing | Number int | Malformed

text \<open>The response of \<open>requests.get(..., stream=True)\<close>: its status, its
  \<open>content-length\<close> header and the sizes of the chunks \<open>iter_content\<close> delivers.\<close>

record http_response =
  status_code :: int
  content_length :: header_int
  chunks :: "nat list"

text \<open>A numeric entry of the dictionary yt-dlp hands to a progress hook: the key may be
  missing, or present with the value \<open>None\<close>, or with a number (an \<open>int\<close> or a
  \<open>float\<close>, given by its value).\<close>

datatype pynum = Absent | PyNone | PyNum rat

record hook_event =
  hk_status :: string
  total_bytes :: pynum
  total_bytes_estimate :: pynum
  downloaded_bytes :: pynum

text \<open>
  What one run of yt-dlp does, as far as the code can see it: the events it reports to
  the progress hooks, the files it leaves on disk, the exception it ends with (if any),
  and the name \<open>prepare_filename\<close> gives for the result.
\<close>

record ydl_result =
  hook_events :: "hook_event list"
  written :: "(path \<times> nat) list"
  ydl_error :: "exn option"
  prepared_filename :: path

text \<open>
  What the code reads from outside the process during one call: the clock, the
  configuration, name resolution, the upstream servers, yt-dlp, and the operating
  system. \<open>urlparse\<close>, \<open>socket.gethostbyname\<close> and \<open>requests.get\<close> either raise or
  return; \<open>extract_bilibili_tv_info\<close> catches every exception itself and returns
  \<open>None\<close> or a non-empty list of formats. \<open>max_download_size_mb\<close> is
  \<open>int(os.getenv('MAX_DOWNLOAD_SIZE_MB', '500'))\<close>, which raises on text that is no integer.
\<close>

record env =
  now :: datetime
  retention_hours :: int
  remove_fails :: "path \<Rightarrow> bool"
  time_ms :: string
  time_str :: string
  max_download_size_mb :: "exn + int"
  urlparse :: "string \<Rightarrow> exn + parsed_url"
  gethostbyname :: "string \<Rightarrow> exn + ip_address"
  extract_bilibili_tv_info :: "string option \<Rightarrow> fmt list option"
  requests_get :: "string \<Rightarrow> exn + http_response"
  mkdtemp :: path
  ydl_download :: "string option \<Rightarrow> string \<Rightarrow> path \<Rightarrow> ydl_result"
  ydl_extract_info :: "string option \<Rightarrow> string \<Rightarrow> path \<Rightarrow> ydl_result"

text \<open>Python truthiness of an optional string: \<open>None\<close> and \<open>''\<close> are false.\<close>

fun truthy :: "string option \<Rightarrow> bool" where
  "truthy None = False"
| "truthy (Some s) = (s \<noteq> [])"

section \<open>File system\<close>

definition is_file :: "state \<Rightarrow> path \<Rightarrow> bool" where
  "is_file st p = (map_of (files st) p \<noteq> None)"

definition os_path_exists :: "state \<Rightarrow> path \<Rightarrow> bool" where
  "os_path_exists st p = (is_file st p \<or> p \<in> set (dirs st))"

text \<open>\<open>os.path.getsize\<close>: the size of a file, \<open>OSError\<close> for a path that does not exist.
  The size reported for a directory is taken as 0.\<close>

definition os_path_getsize :: "state \<Rightarrow> path \<Rightarrow> exn + nat" where
  "os_path_getsize st p =
     (case map_of (files st) p of
        Some n \<Rightarrow> Inr n
      | None \<Rightarrow> if p \<in> set (dirs st) then Inr 0 else Inl OSError)"

text \<open>\<open>os.remove\<close>: deletes a regular file; \<open>OSError\<close> for a directory, a missing path, or
  when the operating system refuses.\<close>

definition os_remove :: "env \<Rightarrow> path \<Rightarrow> state \<Rightarrow> exn + state" where
  "os_remove e p st =
     (if is_file st p \<and> \<not> remove_fails e p
      then Inr (st\<lparr>files := filter (\<lambda>f. fst f \<noteq> p) (files st)\<rparr>)
      else Inl OSError)"

section \<open>Task records (\<open>models.py\<close>, \<open>services/task_service.py\<close>)\<close>

text \<open>
  The table \<open>download_tasks\<close> is the list \<open>tasks\<close> of the state, and the database is
  taken to work: a query, a change of a row and \<open>commit\<close> succeed, so the branches of
  the service functions that only log a database error do not occur. The clock
  (\<open>datetime.utcnow()\<close>) is read from the environment.
\<close>

definition touch :: "datetime \<Rightarrow> download_task \<Rightarrow> download_task" where
  "touch t task = task\<lparr>last_accessed_at := Some t\<rparr>"

definition extend_expiry :: "datetime \<Rightarrow> int \<Rightarrow> download_task \<Rightarrow> download_task" where
  "extend_expiry t hours task =
     (let task1 = task\<lparr>expires_at := Some t\<rparr>
      in if hours \<noteq> 0 \<and> hours > 0 then task1\<lparr>expires_at := Some (t + hours * 3600)\<rparr>
         else task1)"






section \<open>Safety gate (\<open>app.py\<close>)\<close>

text \<open>
  \<open>_host_is_private\<close>: the port is cut off (\<open>host.split(':', 1)[0]\<close>), the name is
  resolved and the address classified. Any exception, a failed resolution among them,
  is caught and answered with \<open>False\<close>.
\<close>

definition host_is_private :: "env \<Rightarrow> string \<Rightarrow> bool" where
  "host_is_private e host =
     (let hostname = takeWhile (\<lambda>c. c \<noteq> CHR '':'') host
      in case gethostbyname e hostname of
           Inl _ \<Rightarrow> False
         | Inr ip \<Rightarrow> is_private ip \<or> is_loopback ip \<or> is_reserved ip \<or> is_link_local ip)"

text \<open>\<open>is_safe_public_url\<close>; \<open>allow_hosts\<close> is \<open>[]\<close> for the default \<open>None\<close>.\<close>

definition is_safe_public_url :: "env \<Rightarrow> string \<Rightarrow> string list \<Rightarrow> bool" where
  "is_safe_public_url e raw_url allow_hosts =
     (case urlparse e raw_url of
        Inl _ \<Rightarrow> False
      | Inr u \<Rightarrow>
          if scheme u \<noteq> ''http'' \<and> scheme u \<noteq> ''https'' then False
          else if netloc u = [] then False
          else if host_is_private e (netloc u) then False
          else if allow_hosts \<noteq> []
            then (let host = (case hostname u of None \<Rightarrow> [] | Some h \<Rightarrow> h)
                  in list_ex (\<lambda>allowed. suffix allowed host) allow_hosts)
          else True)"

section \<open>Progress publisher (\<open>get_download_progress\<close>)\<close>

text \<open>
  What the stream sends: a progress snapshot (\<open>data: <json>\<close>) or the terminal
  \<open>{"status": "timeout"}\<close>.
\<close>

datatype sse_event = Data snapshot | Timeout

definition max_timeout :: rat where
  "max_timeout = 180"

text \<open>
  The loop of \<open>generate\<close>. The other threads change the progress store while the loop
  sleeps, so the loop is given what the store holds for its session id at each tick
  (\<open>store k\<close> at the \<open>k\<close>-th pass). \<open>timeout\<close> grows by 0.3 per pass; it is counted
  exactly here, where the source adds floats. The counter \<open>no_update_count\<close> of the
  source is written and never read. The result is the list of events sent and the
  number of passes made when the stream closes.
\<close>

function sse_loop :: "(nat \<Rightarrow> snapshot option) \<Rightarrow> nat \<Rightarrow> rat \<Rightarrow> snapshot option
    \<Rightarrow> sse_event list \<times> nat" where
  "sse_loop store k timeout last_status =
     (if timeout < max_timeout then
        (case store k of
           Some current \<Rightarrow>
             if Some current \<noteq> last_status
             then (case sse_loop store (k + 1) (timeout + 3 / 10) (Some current) of
                     (evs, n) \<Rightarrow> (Data current # evs, n))
             else sse_loop store (k + 1) (timeout + 3 / 10) last_status
         | None \<Rightarrow> sse_loop store (k + 1) (timeout + 3 / 10) last_status)
      else (if timeout \<ge> max_timeout then ([Timeout], k) else ([], k)))"
  by pat_completeness auto
termination
proof (relation "measure (\<lambda>(store, k, timeout, last). nat \<lceil>(max_timeout - timeout) * 10 / 3\<rceil>)")
  show "wf (measure (\<lambda>(store, k, timeout, last). nat \<lceil>(max_timeout - timeout) * 10 / 3\<rceil>))"
    by simp
next
  have step: "nat \<lceil>(max_timeout - (t + 3 / 10)) * 10 / 3\<rceil> < nat \<lceil>(max_timeout - t) * 10 / 3\<rceil>"
    if "t < max_timeout" for t :: rat
  proof -
    have eq: "(max_timeout - (t + 3 / 10)) * 10 / 3 = (max_timeout - t) * 10 / 3 - 1"
      by (simp add: field_simps)
    from that have pos: "0 < (max_timeout - t) * 10 / 3"
      by simp
    then have "0 < \<lceil>(max_timeout - t) * 10 / 3\<rceil>"
      by (simp add: less_ceiling_iff)
    then show ?thesis
      unfolding eq by simp
  qed
  fix store :: "nat \<Rightarrow> snapshot option" and k :: nat and timeout :: rat
    and last_status :: "snapshot option" and x2 :: snapshot
  assume lt: "timeout < max_timeout"
  show "((store, k + 1, timeout + 3 / 10, Some x2), store, k, timeout, last_status)
      \<in> measure (\<lambda>(store, k, timeout, last). nat \<lceil>(max_timeout - timeout) * 10 / 3\<rceil>)"
    using step [OF lt] by simp
  show "((store, k + 1, timeout + 3 / 10, last_status), store, k, timeout, last_status)
      \<in> measure (\<lambda>(store, k, timeout, last). nat \<lceil>(max_timeout - timeout) * 10 / 3\<rceil>)"
    using step [OF lt] by simp
  show "((store, k + 1, timeout + 3 / 10, last_status), store, k, timeout, last_status)
      \<in> measure (\<lambda>(store, k, timeout, last). nat \<lceil>(max_timeout - timeout) * 10 / 3\<rceil>)"
    using step [OF lt] by simp
qed

declare sse_loop.simps [simp del]

definition get_download_progress :: "(nat \<Rightarrow> snapshot option) \<Rightarrow> sse_event list \<times> nat" where
  "get_download_progress store = sse_loop store 0 0 None"

section \<open>More of the file system\<close>

text \<open>\<open>os.path.join\<close> of two components (POSIX): an absolute second component replaces
  the first.\<close>

definition os_path_join :: "path \<Rightarrow> string \<Rightarrow> path" where
  "os_path_join a b =
     (if prefix ''/'' b then b
      else if a = [] \<or> suffix ''/'' a then a @ b
      else a @ ''/'' @ b)"

text \<open>\<open>os.path.dirname\<close> (POSIX).\<close>

definition os_path_dirname :: "path \<Rightarrow> path" where
  "os_path_dirname p =
     (let head = rev (dropWhile (\<lambda>c. c \<noteq> CHR ''/'') (rev p))
      in if head \<noteq> [] \<and> \<not> list_all (\<lambda>c. c = CHR ''/'') head
         then rev (dropWhile (\<lambda>c. c = CHR ''/'') (rev head))
         else head)"

text \<open>\<open>os.path.splitext(p)[0]\<close>: the extension starts at the last dot of the last
  component, unless only dots precede that dot there.\<close>

definition splitext_root :: "path \<Rightarrow> path" where
  "splitext_root p =
     (let base = rev (takeWhile (\<lambda>c. c \<noteq> CHR ''/'') (rev p));
          head = take (length p - length base) p
      in if CHR ''.'' \<in> set base
         then (let stem = rev (drop 1 (dropWhile (\<lambda>c. c \<noteq> CHR ''.'') (rev base)))
               in if list_ex (\<lambda>c. c \<noteq> CHR ''.'') stem then head @ stem else p)
         else p)"

text \<open>The names directly inside a directory, files first.\<close>

definition os_listdir :: "state \<Rightarrow> path \<Rightarrow> string list" where
  "os_listdir st d =
     map (drop (length d + 1))
       (filter (\<lambda>p. prefix (d @ ''/'') p \<and> CHR ''/'' \<notin> set (drop (length d + 1) p))
          (map fst (files st) @ dirs st))"

text \<open>\<open>os.rmdir\<close> removes an empty directory and raises \<open>OSError\<close> otherwise.\<close>

definition os_rmdir :: "path \<Rightarrow> state \<Rightarrow> exn + state" where
  "os_rmdir d st =
     (if d \<in> set (dirs st) \<and> \<not> list_ex (\<lambda>p. prefix (d @ ''/'') p) (map fst (files st) @ dirs st)
      then Inr (st\<lparr>dirs := removeAll d (dirs st)\<rparr>)
      else Inl OSError)"

text \<open>\<open>tempfile.mkdtemp()\<close>: the directory named by the environment now exists.\<close>

definition make_temp_dir :: "env \<Rightarrow> state \<Rightarrow> state" where
  "make_temp_dir e st = st\<lparr>dirs := dirs st @ [mkdtemp e]\<rparr>"

text \<open>The size a path is given: an existing file changes its size, a new one is added.\<close>

definition set_size :: "path \<Rightarrow> nat \<Rightarrow> (path \<times> nat) list \<Rightarrow> (path \<times> nat) list" where
  "set_size p n fs =
     (if map_of fs p = None then fs @ [(p, n)]
      else map (\<lambda>f. if fst f = p then (p, n) else f) fs)"

text \<open>\<open>open(p, 'wb')\<close> creates or truncates the file; \<open>OSError\<close> when \<open>p\<close> is a
  directory or its parent directory does not exist (a relative name and the root have
  a parent). \<open>can_create ds p\<close>: with the directories \<open>ds\<close>, the file \<open>p\<close> can be opened
  for writing.\<close>

definition can_create :: "path list \<Rightarrow> path \<Rightarrow> bool" where
  "can_create ds p =
     (let parent = os_path_dirname p
      in p \<notin> set ds \<and> (parent = [] \<or> parent = ''/'' \<or> parent \<in> set ds))"

definition open_wb :: "path \<Rightarrow> state \<Rightarrow> exn + state" where
  "open_wb p st =
     (if can_create (dirs st) p then Inr (st\<lparr>files := set_size p 0 (files st)\<rparr>)
      else Inl OSError)"

text \<open>\<open>f.write(chunk)\<close> on the open file.\<close>

definition file_write :: "path \<Rightarrow> nat \<Rightarrow> state \<Rightarrow> state" where
  "file_write p n st =
     st\<lparr>files := set_size p (n + (case map_of (files st) p of None \<Rightarrow> 0 | Some m \<Rightarrow> m)) (files st)\<rparr>"

text \<open>The files yt-dlp leaves behind.\<close>

definition write_files :: "(path \<times> nat) list \<Rightarrow> state \<Rightarrow> state" where
  "write_files ws st = st\<lparr>files := fold (\<lambda>w fs. set_size (fst w) (snd w) fs) ws (files st)\<rparr>"

text \<open>The chunks \<open>f.read(c)\<close> returns for a file of \<open>n\<close> bytes, up to the empty one.\<close>

definition read_chunks :: "nat \<Rightarrow> nat \<Rightarrow> nat list" where
  "read_chunks n c = replicate (n div c) c @ (if n mod c = 0 then [] else [n mod c])"

section \<open>Task service (\<open>services/task_service.py\<close>)\<close>

text \<open>The \<open>defaults\<close> dictionary of \<open>upsert_task\<close>: a key that is missing and a key
  whose value is \<open>None\<close> are both skipped by the loop.\<close>

record task_defaults =
  d_platform :: "string option"
  d_source_url :: "string option"
  d_direct_url :: "string option"
  d_requested_filename :: "string option"
  d_status :: "string option"
  d_message :: "string option"

definition no_defaults :: task_defaults where
  "no_defaults = \<lparr>d_platform = None, d_source_url = None, d_direct_url = None,
     d_requested_filename = None, d_status = None, d_message = None\<rparr>"

fun or_else :: "'a option \<Rightarrow> 'a option \<Rightarrow> 'a option" where
  "or_else (Some v) old = Some v"
| "or_else None old = old"

definition apply_defaults :: "task_defaults \<Rightarrow> download_task \<Rightarrow> download_task" where
  "apply_defaults d task = task\<lparr>
     platform := or_else (d_platform d) (platform task),
     source_url := or_else (d_source_url d) (source_url task),
     direct_url := or_else (d_direct_url d) (direct_url task),
     requested_filename := or_else (d_requested_filename d) (requested_filename task),
     task_status := or_else (d_status d) (task_status task),
     task_message := or_else (d_message d) (task_message task)\<rparr>"

text \<open>\<open>DownloadTask(session_id=...)\<close>: the column defaults are applied by the database
  at the flush, the attributes of the new object are \<open>None\<close>.\<close>

definition new_task :: "string \<Rightarrow> download_task" where
  "new_task sid = \<lparr>session_id = sid, platform = None, source_url = None, direct_url = None,
     requested_filename = None, storage_path = None, storage_type = None, file_size = None,
     task_status = None, task_message = None, last_progress = None,
     last_accessed_at = None, expires_at = None\<rparr>"

text \<open>The row of a session id is changed in place.\<close>

definition db_update :: "string \<Rightarrow> (download_task \<Rightarrow> download_task) \<Rightarrow> state \<Rightarrow> state" where
  "db_update sid f st = st\<lparr>tasks := map (\<lambda>t. if session_id t = sid then f t else t) (tasks st)\<rparr>"

definition upsert_task :: "env \<Rightarrow> string \<Rightarrow> task_defaults \<Rightarrow> state \<Rightarrow> state" where
  "upsert_task e sid defaults st =
     (let refresh = (\<lambda>task. extend_expiry (now e) (retention_hours e)
                        (touch (now e) (apply_defaults defaults task)))
      in case find (\<lambda>t. session_id t = sid) (tasks st) of
           None \<Rightarrow>
             (let task = refresh (new_task sid);
                  task1 = (if \<not> truthy (task_status task)
                           then task\<lparr>task_status := Some ''pending''\<rparr> else task)
              in st\<lparr>tasks := tasks st @ [task1]\<rparr>)
         | Some _ \<Rightarrow> db_update sid refresh st)"

text \<open>\<open>DownloadTask.mark_status\<close> and \<open>DownloadTask.set_storage\<close>.\<close>

definition task_mark_status :: "datetime \<Rightarrow> string \<Rightarrow> string option \<Rightarrow> snapshot option
    \<Rightarrow> download_task \<Rightarrow> download_task" where
  "task_mark_status t st_new msg progress task =
     touch t (task\<lparr>task_status := Some st_new,
       task_message := (if truthy msg then msg else task_message task),
       last_progress := or_else progress (last_progress task)\<rparr>)"

definition set_storage :: "datetime \<Rightarrow> path option \<Rightarrow> string option \<Rightarrow> nat option
    \<Rightarrow> download_task \<Rightarrow> download_task" where
  "set_storage t p stype fsize task =
     touch t (task\<lparr>storage_path := p, storage_type := stype,
       file_size := or_else fsize (file_size task)\<rparr>)"

definition mark_status :: "env \<Rightarrow> string \<Rightarrow> string \<Rightarrow> string option \<Rightarrow> snapshot option
    \<Rightarrow> state \<Rightarrow> state" where
  "mark_status e sid st_new msg progress st =
     db_update sid (\<lambda>task. extend_expiry (now e) (retention_hours e)
                      (task_mark_status (now e) st_new msg progress task))
       (upsert_task e sid no_defaults st)"

definition register_storage :: "env \<Rightarrow> string \<Rightarrow> path \<Rightarrow> string \<Rightarrow> nat option \<Rightarrow> state \<Rightarrow> state" where
  "register_storage e sid p stype fsize st =
     db_update sid (set_storage (now e) (Some p) (Some stype) fsize)
       (upsert_task e sid no_defaults st)"

text \<open>\<open>mark_file_deleted\<close> (``Clear stored file metadata after streaming/cleanup''). No
  other function of the repository calls it.\<close>

definition mark_file_deleted :: "env \<Rightarrow> string \<Rightarrow> state \<Rightarrow> state" where
  "mark_file_deleted e sid st =
     db_update sid (\<lambda>task. touch (now e)
        ((set_storage (now e) None (storage_type task) None task)
           \<lparr>task_status := Some ''completed''\<rparr>)) st"

section \<open>Progress store (\<open>_update_progress\<close>)\<close>

definition update_progress :: "env \<Rightarrow> string \<Rightarrow> snapshot \<Rightarrow> state \<Rightarrow> state" where
  "update_progress e sid payload st =
     mark_status e sid (status payload) (Some (message payload)) (Some payload)
       (st\<lparr>download_progress := (download_progress st)(sid \<mapsto> payload),
           progress_log := progress_log st @ [(sid, payload)]\<rparr>)"

text \<open>
  Rounding to the nearest integer, a tie to the even neighbour.
\<close>

definition round_half_even :: "rat \<Rightarrow> int" where
  "round_half_even x =
     (let f = \<lfloor>x\<rfloor>; d = x - of_int f
      in if d < 1 / 2 then f
         else if 1 / 2 < d then f + 1
         else if even f then f else f + 1)"

text \<open>
  A Python \<open>float\<close> is an IEEE 754 double; a finite one is given here by its value, a
  rational number. \<open>floor_log2 x\<close> is, for a positive \<open>x\<close>, the exponent \<open>k\<close> with
  \<open>2 ^ k \<le> x < 2 ^ (k + 1)\<close>. \<open>ulp_of x\<close> is the distance between the doubles around
  \<open>x\<close>: a double has 53 significant bits, and below \<open>2 ^ (-1022)\<close> (the subnormal
  numbers) the distance stays \<open>2 ^ (-1074)\<close>. \<open>to_double x\<close> is the double nearest to
  \<open>x\<close>, a tie going to the even significand: the result of every correctly rounded
  operation. The exponent has no upper limit here: from \<open>2 ^ 1024\<close> on, where Python
  raises \<open>OverflowError\<close> or goes to infinity, \<open>to_double\<close> is not the double, and the
  statements about percents below keep the byte counts away from there.
\<close>

definition floor_log2 :: "rat \<Rightarrow> int" where
  "floor_log2 x =
     (case quotient_of x of (p, q) \<Rightarrow>
        (let d = bitlen p - bitlen q in if 2 powi d \<le> x then d else d - 1))"

definition ulp_of :: "rat \<Rightarrow> rat" where
  "ulp_of x = 2 powi (max (floor_log2 \<bar>x\<bar>) (- 1022) - 52)"

definition to_double :: "rat \<Rightarrow> rat" where
  "to_double x = (if x = 0 then 0 else of_int (round_half_even (x / ulp_of x)) * ulp_of x)"

text \<open>
  The arithmetic of \<open>percent = (downloaded / total) * 100\<close> and \<open>round(percent, 1)\<close>.
  \<open>a / b\<close> on two \<open>int\<close>s or two \<open>float\<close>s is the correctly rounded quotient (on an \<open>int\<close>
  and a \<open>float\<close> too, as long as the \<open>int\<close> is at most \<open>2 ^ 53\<close> and so is a double
  itself); \<open>x * 100\<close> is the correctly rounded product; \<open>round(x, 1)\<close> is the double
  nearest to the decimal with one digit after the point that is nearest to \<open>x\<close>, a tie
  between two decimals going to the even digit. The code divides by a total that it
  has found to be non-zero; \<open>py_truediv\<close> is used for no other divisor.
\<close>

definition py_truediv :: "rat \<Rightarrow> rat \<Rightarrow> rat" where
  "py_truediv a b = to_double (a / b)"

definition py_mul :: "rat \<Rightarrow> rat \<Rightarrow> rat" where
  "py_mul x y = to_double (x * y)"

definition py_round1 :: "rat \<Rightarrow> rat" where
  "py_round1 x = to_double (of_int (round_half_even (x * 10)) / 10)"

definition plain_snapshot :: "string \<Rightarrow> string \<Rightarrow> rat \<Rightarrow> snapshot" where
  "plain_snapshot s m p = \<lparr>status = s, message = m, percent = Some p, downloaded = None, total = None\<rparr>"

definition downloading_snapshot :: "rat \<Rightarrow> rat \<Rightarrow> snapshot" where
  "downloading_snapshot done_bytes total_bytes_known =
     \<lparr>status = ''downloading'', message = ''Downloading video...'',
      percent = Some (py_round1 (py_mul (py_truediv done_bytes total_bytes_known) 100)),
      downloaded = Some done_bytes, total = Some total_bytes_known\<rparr>"

section \<open>Requests and responses\<close>

text \<open>A field of the request's JSON object (or query string): the key is missing, or
  holds \<open>null\<close>, or a string. \<open>get_field\<close> is \<open>data.get(k)\<close>, \<open>get_default\<close> is
  \<open>data.get(k, d)\<close>.\<close>

datatype field = NoKey | Null | Str string

fun get_field :: "field \<Rightarrow> string option" where
  "get_field NoKey = None"
| "get_field Null = None"
| "get_field (Str s) = Some s"

fun get_default :: "field \<Rightarrow> string \<Rightarrow> string option" where
  "get_default NoKey d = Some d"
| "get_default Null d = None"
| "get_default (Str s) d = Some s"

text \<open>The body of a request to the download endpoints (the query string for
  \<open>GET /api/proxy-download\<close>). A session id, when given, is a string.\<close>

record request =
  rq_video_url :: field
  rq_format_id :: field
  rq_platform :: field
  rq_direct_url :: field
  rq_filename :: field
  rq_session_id :: "string option"

text \<open>
  The texts of the responses:
  \<^item> \<open>SessionExpired\<close>: ``Download session expired'';
  \<^item> \<open>SessionNotFound\<close>: ``Download session not found'';
  \<^item> \<open>UnsafeDownloadUrl\<close>: ``Invalid or unsafe download URL'';
  \<^item> \<open>FileTooLarge n\<close>: ``File too large (> n MB)'';
  \<^item> \<open>FetchFailed c\<close>: ``Failed to download video: HTTP c'';
  \<^item> \<open>DownloadFailed\<close>: ``Download failed'';
  \<^item> \<open>DownloadErrorText x\<close>: ``Download error: '' followed by the text of the exception;
  \<^item> \<open>VideoUrlRequired\<close>: ``Video URL is required'';
  \<^item> \<open>UnsafeDirectUrl\<close>: ``Invalid or unsafe direct URL'';
  \<^item> \<open>DownloadFailedWith x\<close>: ``Download failed: '' followed by the text of the exception;
  \<^item> \<open>ExceptionText x\<close>: the text of the exception.
\<close>

datatype msg = SessionExpired | SessionNotFound | UnsafeDownloadUrl | FileTooLarge int
  | FetchFailed int | DownloadFailed | DownloadErrorText exn | VideoUrlRequired
  | UnsafeDirectUrl | DownloadFailedWith exn | ExceptionText exn

text \<open>
  The body generators of the streaming responses; their code runs when the server
  sends the body (see \<open>run_generate\<close>):
  \<^item> \<open>UpstreamGen cs\<close>: \<open>force_download\<close>, direct URL: the chunks of the upstream response;
  \<^item> \<open>FileGen file dir\<close>: \<open>force_download\<close>, yt-dlp;
  \<^item> \<open>DirectGen file dir\<close>: \<open>proxy_download\<close>, direct mode;
  \<^item> \<open>YdlGen file dir sid\<close>: \<open>proxy_download\<close>, yt-dlp mode.
\<close>

datatype gen = UpstreamGen "nat list" | FileGen path path | DirectGen path path
  | YdlGen path path string

text \<open>
  A response: a plain text with a status (\<open>return "...", code\<close>), a JSON object with an
  \<open>error\<close> key and, when the first argument is not \<open>None\<close>, a \<open>success\<close> key
  (\<open>jsonify({...}), code\<close>), the object \<open>{success: true, download_url: ...}\<close>, or a
  streamed body with status 200. Of the headers, only the check they pass when the
  \<open>Response\<close> is built is modelled (\<open>header_value_ok\<close> below).
\<close>

datatype response = Plain msg int | Json "bool option" msg int | JsonUrl string | Stream gen

text \<open>Whether a response is the streamed body (status 200).\<close>

definition is_stream :: "response \<Rightarrow> bool" where
  "is_stream r = (case r of Stream _ \<Rightarrow> True | _ \<Rightarrow> False)"

section \<open>\<open>get_download_url\<close>\<close>

definition get_download_url :: "env \<Rightarrow> request option \<Rightarrow> state \<Rightarrow> response \<times> state" where
  "get_download_url e body st =
     (case body of
        None \<Rightarrow> (Json (Some False) (ExceptionText AttributeError) 500, st)
      | Some data \<Rightarrow>
          (let video_url = get_field (rq_video_url data);
               format_id = get_field (rq_format_id data);
               platform_v = get_field (rq_platform data);
               direct_url_v = get_field (rq_direct_url data);
               filename = get_default (rq_filename data) ''video.mp4'';
               sid = time_ms e;
               pending = (case pending_downloads st of None \<Rightarrow> Map.empty | Some m \<Rightarrow> m);
               st1 = st\<lparr>pending_downloads := Some (pending(sid \<mapsto>
                       \<lparr>info_video_url = video_url, info_direct_url = direct_url_v,
                        info_format_id = format_id, info_filename = filename,
                        info_platform = platform_v\<rparr>))\<rparr>;
               st2 = upsert_task e sid
                       \<lparr>d_platform = platform_v, d_source_url = video_url,
                        d_direct_url = direct_url_v, d_requested_filename = filename,
                        d_status = Some ''pending'',
                        d_message = Some ''Waiting for download request''\<rparr> st1
           in (JsonUrl (''/api/force-download/'' @ sid), st2)))"

section \<open>\<open>force_download\<close>\<close>

text \<open>The refresh of a Bilibili.tv URL: the format with the chosen id, else the first
  format; the old URL when the extraction gives nothing.\<close>

definition refresh_direct_url :: "env \<Rightarrow> string option \<Rightarrow> string option \<Rightarrow> string option
    \<Rightarrow> string option" where
  "refresh_direct_url e video_url format_id direct_url_v =
     (case extract_bilibili_tv_info e video_url of
        None \<Rightarrow> direct_url_v
      | Some [] \<Rightarrow> direct_url_v
      | Some (f0 # fs) \<Rightarrow>
          (case find (\<lambda>f. Some (fmt_format_id f) = format_id) (f0 # fs) of
             Some f \<Rightarrow> Some (fmt_url f)
           | None \<Rightarrow> Some (fmt_url f0)))"

definition max_bytes :: "env \<Rightarrow> exn + int" where
  "max_bytes e = (case max_download_size_mb e of Inl x \<Rightarrow> Inl x | Inr mb \<Rightarrow> Inr (mb * 1024 * 1024))"

text \<open>The size check: \<open>cl = int(headers.get('content-length', '0'))\<close>,
  \<open>if cl and cl > max_bytes\<close>; a \<open>ValueError\<close> of \<open>int\<close> is passed over.\<close>

definition too_large :: "http_response \<Rightarrow> int \<Rightarrow> bool" where
  "too_large r mx =
     (case content_length r of
        Missing \<Rightarrow> False
      | Malformed \<Rightarrow> False
      | Number cl \<Rightarrow> cl \<noteq> 0 \<and> cl > mx)"

definition del_pending :: "string \<Rightarrow> state \<Rightarrow> state" where
  "del_pending sid st =
     st\<lparr>pending_downloads := map_option (\<lambda>m. m(sid := None)) (pending_downloads st)\<rparr>"

text \<open>
  \<open>str.strip()\<close>: white space is taken off both ends. Among the ASCII characters the
  white space is TAB, LF, VT, FF, CR, FS, GS, RS, US and the blank.
\<close>

definition py_isspace :: "char \<Rightarrow> bool" where
  "py_isspace c = (let n = (of_char c :: nat) in (9 \<le> n \<and> n \<le> 13) \<or> (28 \<le> n \<and> n \<le> 32))"

definition py_strip :: "string \<Rightarrow> string" where
  "py_strip s = rev (dropWhile py_isspace (rev (dropWhile py_isspace s)))"

text \<open>
  The file name made fit for a header (a string is given by its bytes in UTF-8, so that a
  character outside ASCII is a run of bytes from 128 on):
  \<open>re.sub(r'[^\x00-\x7F]+', '', filename)\<close> drops what is not ASCII,
  \<open>re.sub(r'[<>:"/\\|?*]', '', ...)\<close> drops the nine characters listed, and
  \<open>.strip() or 'video.mp4'\<close> trims the ends and falls back when nothing is left. A line
  feed or carriage return inside the name stays.
\<close>

definition invalid_chars :: "char list" where
  "invalid_chars = [CHR ''<'', CHR ''>'', CHR '':'', CHR 0x22, CHR ''/'', CHR 0x5C, CHR ''|'',
                    CHR ''?'', CHR ''*'']"

definition sanitize_filename :: "string \<Rightarrow> string" where
  "sanitize_filename filename =
     (let s1 = filter (\<lambda>c. (of_char c :: nat) < 128) filename;
          s2 = filter (\<lambda>c. c \<notin> set invalid_chars) s1;
          s3 = py_strip s2
      in if s3 = [] then ''video.mp4'' else s3)"

text \<open>
  The header \<open>f'attachment; filename="{name}"'\<close>, and the check every header value
  passes when a \<open>Response\<close> takes it: a value with a carriage return or a line feed in it
  is refused with a \<open>ValueError\<close>. The other header values the handlers set are constants
  or a \<open>Content-Length\<close>, taken to be on one line.
\<close>

definition content_disposition :: "string \<Rightarrow> string" where
  "content_disposition name = ''attachment; filename='' @ [CHR 0x22] @ name @ [CHR 0x22]"

definition header_value_ok :: "string \<Rightarrow> bool" where
  "header_value_ok v = (CHR 0x0A \<notin> set v \<and> CHR 0x0D \<notin> set v)"

text \<open>The branch for a direct URL. The result is the response, or the exception that
  reaches the handler's \<open>except\<close>, and the state at that point. The session is deleted
  before the \<open>Response\<close> is built, which fails on a file name that, sanitized, still
  holds a line break.\<close>

definition force_download_direct :: "env \<Rightarrow> string \<Rightarrow> download_info \<Rightarrow> string \<Rightarrow> state
    \<Rightarrow> (exn + response) \<times> state" where
  "force_download_direct e sid info url st =
     (if \<not> is_safe_public_url e url [] then (Inr (Plain UnsafeDownloadUrl 400), st)
      else case info_filename info of
        None \<Rightarrow> (Inl TypeError, st)
      | Some filename \<Rightarrow>
          (let safe_filename = sanitize_filename filename
           in case requests_get e url of
                Inl x \<Rightarrow> (Inl x, st)
              | Inr response \<Rightarrow>
                  (case max_bytes e of
                     Inl x \<Rightarrow> (Inl x, st)
                   | Inr mx \<Rightarrow>
                       if too_large response mx
                       then (Inr (Plain (FileTooLarge (mx div (1024 * 1024))) 413), st)
                       else if status_code response \<noteq> 200
                       then (Inr (Plain (FetchFailed (status_code response)) (status_code response)), st)
                       else
                         (let st1 = del_pending sid st
                          in if header_value_ok (content_disposition safe_filename)
                             then (Inr (Stream (UpstreamGen (chunks response))), st1)
                             else (Inl ValueError, st1)))))"

text \<open>The branch that lets yt-dlp download into a fresh temporary directory. Here the
  header takes the file name as it is, after the session has been deleted.\<close>

definition force_download_ydl :: "env \<Rightarrow> string \<Rightarrow> download_info \<Rightarrow> state
    \<Rightarrow> (exn + response) \<times> state" where
  "force_download_ydl e sid info st =
     (let temp_dir = mkdtemp e;
          st1 = make_temp_dir e st
      in case info_filename info of
           None \<Rightarrow> (Inl TypeError, st1)
         | Some filename \<Rightarrow>
             (let temp_file = os_path_join temp_dir filename;
                  format = (case info_format_id info of
                              None \<Rightarrow> ''best''
                            | Some f \<Rightarrow> if f \<noteq> [] then f else ''best'');
                  r = ydl_download e (info_video_url info) format temp_file;
                  st2 = write_files (written r) st1
              in case ydl_error r of
                   Some x \<Rightarrow> (Inl x, st2)
                 | None \<Rightarrow>
                     (case find (\<lambda>f. prefix (splitext_root filename) f) (os_listdir st2 temp_dir) of
                        None \<Rightarrow> (Inr (Plain DownloadFailed 500), st2)
                      | Some f \<Rightarrow>
                          (let downloaded_file = os_path_join temp_dir f
                           in if \<not> os_path_exists st2 downloaded_file
                              then (Inr (Plain DownloadFailed 500), st2)
                              else
                                (let st3 = del_pending sid st2
                                 in case os_path_getsize st3 downloaded_file of
                                      Inl x \<Rightarrow> (Inl x, st3)
                                    | Inr n \<Rightarrow>
                                        if header_value_ok (content_disposition filename)
                                        then (Inr (Stream (FileGen downloaded_file temp_dir)), st3)
                                        else (Inl ValueError, st3))))))"

text \<open>The URL \<open>force_download\<close> goes on with: refreshed for Bilibili.tv when the page
  URL is known, else the one stored with the session.\<close>

definition force_download_url :: "env \<Rightarrow> download_info \<Rightarrow> string option" where
  "force_download_url e info =
     (if info_platform info = Some ''bilibili_tv'' \<and> truthy (info_video_url info)
      then refresh_direct_url e (info_video_url info) (info_format_id info) (info_direct_url info)
      else info_direct_url info)"

definition force_download :: "env \<Rightarrow> string \<Rightarrow> state \<Rightarrow> response \<times> state" where
  "force_download e sid st =
     (case pending_downloads st of
        None \<Rightarrow> (Plain SessionExpired 404, st)
      | Some pending \<Rightarrow>
          (case pending sid of
             None \<Rightarrow> (Plain SessionNotFound 404, st)
           | Some info \<Rightarrow>
               (let url = force_download_url e info
                in case (case url of
                           None \<Rightarrow> force_download_ydl e sid info st
                         | Some u \<Rightarrow>
                             if u \<noteq> [] \<and> prefix ''http'' u
                             then force_download_direct e sid info u st
                             else force_download_ydl e sid info st)
                   of (Inl x, st') \<Rightarrow> (Plain (DownloadErrorText x) 500, st')
                    | (Inr resp, st') \<Rightarrow> (resp, st'))))"

section \<open>The body generators\<close>

text \<open>The \<open>finally\<close> block of the direct-mode generator of \<open>proxy_download\<close>: the file and
  the directory are removed when they exist; an exception ends the block silently.\<close>

definition cleanup_direct :: "env \<Rightarrow> path \<Rightarrow> path \<Rightarrow> state \<Rightarrow> state" where
  "cleanup_direct e temp_file temp_dir st =
     (case (if os_path_exists st temp_file then os_remove e temp_file st else Inr st) of
        Inl _ \<Rightarrow> st
      | Inr st1 \<Rightarrow>
          (case (if os_path_exists st1 temp_dir then os_rmdir temp_dir st1 else Inr st1) of
             Inl _ \<Rightarrow> st1
           | Inr st2 \<Rightarrow> st2))"

text \<open>The \<open>finally\<close> block of the yt-dlp generator of \<open>proxy_download\<close>: as above, and
  then the entry of the session leaves the progress store; an exception ends the block
  where it is raised.\<close>

definition cleanup_ydl :: "env \<Rightarrow> path \<Rightarrow> path \<Rightarrow> string \<Rightarrow> state \<Rightarrow> state" where
  "cleanup_ydl e downloaded_file temp_dir sid st =
     (case (if os_path_exists st downloaded_file then os_remove e downloaded_file st else Inr st) of
        Inl _ \<Rightarrow> st
      | Inr st1 \<Rightarrow>
          (case (if os_path_exists st1 temp_dir then os_rmdir temp_dir st1 else Inr st1) of
             Inl _ \<Rightarrow> st1
           | Inr st2 \<Rightarrow> st2\<lparr>download_progress := (download_progress st2)(sid := None)\<rparr>))"

text \<open>The clean-up at the end of the yt-dlp generator of \<open>force_download\<close> (not in a
  \<open>finally\<close>: it runs only when the whole file has been sent).\<close>

definition cleanup_file :: "env \<Rightarrow> path \<Rightarrow> path \<Rightarrow> state \<Rightarrow> state" where
  "cleanup_file e downloaded_file temp_dir st =
     (case os_remove e downloaded_file st of
        Inl _ \<Rightarrow> st
      | Inr st1 \<Rightarrow> (case os_rmdir temp_dir st1 of Inl _ \<Rightarrow> st1 | Inr st2 \<Rightarrow> st2))"

text \<open>The chunks a client receives that reads \<open>reads\<close> chunks and then goes away
  (\<open>None\<close>: it reads to the end).\<close>

fun received :: "nat option \<Rightarrow> nat list \<Rightarrow> nat list" where
  "received None cs = cs"
| "received (Some k) cs = take k cs"

text \<open>
  Running a generator while the server sends the body: the chunks sent and the state
  afterwards. The file is read in chunks of the generator's size (1 MiB, or 512 KiB in
  the direct mode of \<open>proxy_download\<close>); a file that cannot be opened raises inside the
  generator, which sends nothing.
\<close>

fun run_generate :: "env \<Rightarrow> gen \<Rightarrow> nat option \<Rightarrow> state \<Rightarrow> nat list \<times> state" where
  "run_generate e (UpstreamGen cs) reads st = (received reads (filter (\<lambda>c. c \<noteq> 0) cs), st)"
| "run_generate e (FileGen downloaded_file temp_dir) reads st =
     (case map_of (files st) downloaded_file of
        None \<Rightarrow> ([], st)
      | Some n \<Rightarrow>
          (let cs = read_chunks n (1024 * 1024);
               sent = received reads cs
           in (sent, if length sent = length cs then cleanup_file e downloaded_file temp_dir st
                     else st)))"
| "run_generate e (DirectGen temp_file temp_dir) reads st =
     (case map_of (files st) temp_file of
        None \<Rightarrow> ([], cleanup_direct e temp_file temp_dir st)
      | Some n \<Rightarrow>
          (received reads (read_chunks n 524288), cleanup_direct e temp_file temp_dir st))"
| "run_generate e (YdlGen downloaded_file temp_dir sid) reads st =
     (case map_of (files st) downloaded_file of
        None \<Rightarrow> ([], cleanup_ydl e downloaded_file temp_dir sid st)
      | Some n \<Rightarrow>
          (received reads (read_chunks n 1048576),
           cleanup_ydl e downloaded_file temp_dir sid st))"

section \<open>\<open>proxy_download\<close>\<close>

text \<open>The chunk loop of the direct mode: every non-empty chunk is written and counted,
  and a snapshot is stored when the total size is known.\<close>

fun download_chunks :: "env \<Rightarrow> string \<Rightarrow> path \<Rightarrow> int \<Rightarrow> nat \<Rightarrow> nat list \<Rightarrow> state \<Rightarrow> state" where
  "download_chunks e sid temp_file total_size done_bytes [] st = st"
| "download_chunks e sid temp_file total_size done_bytes (chunk # rest) st =
     (if chunk \<noteq> 0
      then (let st1 = file_write temp_file chunk st;
                done1 = done_bytes + chunk;
                st2 = (if total_size \<noteq> 0
                       then update_progress e sid
                              (downloading_snapshot (of_nat done1) (of_int total_size)) st1
                       else st1)
            in download_chunks e sid temp_file total_size done1 rest st2)
      else download_chunks e sid temp_file total_size done_bytes rest st)"

text \<open>\<open>'k' in d and d['k']\<close> for a numeric entry.\<close>

fun present_and_true :: "pynum \<Rightarrow> bool" where
  "present_and_true (PyNum x) = (x \<noteq> 0)"
| "present_and_true _ = False"

text \<open>
  \<open>progress_hook\<close>. An exception inside the hook (a missing \<open>downloaded_bytes\<close>, a
  division with \<open>None\<close>) is caught and printed, nothing is stored then.
\<close>

definition progress_hook :: "env \<Rightarrow> string \<Rightarrow> hook_event \<Rightarrow> state \<Rightarrow> state" where
  "progress_hook e sid d st =
     (if hk_status d = ''downloading'' then
        (if present_and_true (total_bytes d) then
           (case (downloaded_bytes d, total_bytes d) of
              (PyNum n, PyNum t) \<Rightarrow> update_progress e sid (downloading_snapshot n t) st
            | _ \<Rightarrow> st)
         else if present_and_true (total_bytes_estimate d) then
           (case (downloaded_bytes d, total_bytes_estimate d) of
              (PyNum n, PyNum t) \<Rightarrow> update_progress e sid (downloading_snapshot n t) st
            | _ \<Rightarrow> st)
         else if downloaded_bytes d \<noteq> Absent then
           update_progress e sid
             \<lparr>status = ''downloading'', message = ''Downloading video...'', percent = None,
              downloaded = (case downloaded_bytes d of PyNum n \<Rightarrow> Some n | _ \<Rightarrow> None),
              total = None\<rparr> st
         else st)
      else if hk_status d = ''finished'' then
        update_progress e sid
          (plain_snapshot ''processing'' ''Memproses video (merging audio+video)...'' 95) st
      else st)"

text \<open>The direct mode (Instagram, Bilibili.tv) from the safety check on. The
  \<open>Response\<close> at the end takes the file name as it is.\<close>

definition proxy_download_direct :: "env \<Rightarrow> string \<Rightarrow> string option \<Rightarrow> string \<Rightarrow> string option
    \<Rightarrow> string option \<Rightarrow> string \<Rightarrow> state \<Rightarrow> (exn + response) \<times> state" where
  "proxy_download_direct e sid video_url url format_id filename platform_v st =
     (if \<not> is_safe_public_url e url [] then (Inr (Json None UnsafeDirectUrl 400), st)
      else
        (let refreshed = (platform_v = ''bilibili_tv'');
             st1 = (if refreshed
                    then update_progress e sid
                           (plain_snapshot ''extracting'' ''Refreshing video URL...'' 5) st
                    else st);
             url1 = (if refreshed then refresh_direct_url e video_url format_id (Some url)
                     else Some url);
             temp_dir = mkdtemp e;
             st2 = make_temp_dir e st1
         in case filename of
              None \<Rightarrow> (Inl TypeError, st2)
            | Some fname \<Rightarrow>
                (let temp_file = os_path_join temp_dir fname;
                     st3 = register_storage e sid temp_file ''temp'' None st2;
                     st4 = update_progress e sid
                             (plain_snapshot ''downloading''
                                (''Downloading '' @ platform_v @ '' video...'') 10) st3
                 in case (case url1 of None \<Rightarrow> Inl TypeError | Some u \<Rightarrow> requests_get e u) of
                      Inl x \<Rightarrow> (Inl x, st4)
                    | Inr response \<Rightarrow>
                        (case max_bytes e of
                           Inl x \<Rightarrow> (Inl x, st4)
                         | Inr mx \<Rightarrow>
                             if too_large response mx
                             then (Inr (Json None (FileTooLarge (mx div (1024 * 1024))) 413), st4)
                             else
                               (case content_length response of
                                  Malformed \<Rightarrow> (Inl ValueError, st4)
                                | cl \<Rightarrow>
                                    (let total_size = (case cl of Number n \<Rightarrow> n | _ \<Rightarrow> 0)
                                     in case open_wb temp_file st4 of
                                          Inl x \<Rightarrow> (Inl x, st4)
                                        | Inr st5 \<Rightarrow>
                                            (let st6 = download_chunks e sid temp_file total_size 0
                                                         (chunks response) st5;
                                                 direct_file_size =
                                                   (case os_path_getsize st6 temp_file of
                                                      Inl _ \<Rightarrow> None | Inr n \<Rightarrow> Some n);
                                                 st7 = register_storage e sid temp_file ''temp''
                                                         direct_file_size st6;
                                                 st8 = update_progress e sid
                                                         (plain_snapshot ''streaming''
                                                            ''Mengirim file ke browser...'' 100) st7
                                             in if header_value_ok (content_disposition fname)
                                                then (Inr (Stream (DirectGen temp_file temp_dir)), st8)
                                                else (Inl ValueError, st8))))))))"

text \<open>The yt-dlp mode. The header takes the sanitized file name.\<close>

definition proxy_download_ydl :: "env \<Rightarrow> string \<Rightarrow> string option \<Rightarrow> string option
    \<Rightarrow> string option \<Rightarrow> state \<Rightarrow> (exn + response) \<times> state" where
  "proxy_download_ydl e sid video_url format_id filename st =
     (let temp_dir = mkdtemp e;
          st1 = make_temp_dir e st;
          output_template = os_path_join temp_dir ''video.%(ext)s'';
          format = (case format_id of None \<Rightarrow> ''best'' | Some f \<Rightarrow> if f \<noteq> [] then f else ''best'');
          st2 = update_progress e sid
                  (plain_snapshot ''extracting'' ''Mengambil informasi video...'' 5) st1;
          r = ydl_extract_info e video_url format output_template;
          st3 = write_files (written r) (fold (progress_hook e sid) (hook_events r) st2)
      in case ydl_error r of
           Some x \<Rightarrow> (Inl x, st3)
         | None \<Rightarrow>
             (let downloaded_file = prepared_filename r
              in case os_path_getsize st3 downloaded_file of
                   Inl x \<Rightarrow> (Inl x, st3)
                 | Inr n \<Rightarrow>
                     (let st4 = update_progress e sid
                                  (plain_snapshot ''streaming'' ''Mengirim file ke browser...'' 100) st3
                      in case filename of
                           None \<Rightarrow> (Inl TypeError, st4)
                         | Some fname \<Rightarrow>
                             if header_value_ok (content_disposition (sanitize_filename fname))
                             then (Inr (Stream (YdlGen downloaded_file temp_dir sid)), st4)
                             else (Inl ValueError, st4))))"

text \<open>
  The handler. An exception raised after the session id is known removes the entry of
  the session from the progress store and is answered with 500.
\<close>

definition proxy_download :: "env \<Rightarrow> request option \<Rightarrow> state \<Rightarrow> response \<times> state" where
  "proxy_download e body st =
     (case body of
        None \<Rightarrow> (Json None (DownloadFailedWith AttributeError) 500, st)
      | Some data \<Rightarrow>
          (let video_url = get_field (rq_video_url data);
               direct_url_v = get_field (rq_direct_url data);
               format_id = get_field (rq_format_id data);
               filename = get_default (rq_filename data) ''video.mp4'';
               sid = (case rq_session_id data of None \<Rightarrow> time_str e | Some s \<Rightarrow> s);
               platform_v = get_default (rq_platform data) []
           in if \<not> truthy video_url \<and> \<not> truthy direct_url_v
              then (Json None VideoUrlRequired 400, st)
              else
                (let st1 = upsert_task e sid
                             \<lparr>d_platform = platform_v,
                              d_source_url = (if truthy video_url then video_url else direct_url_v),
                              d_direct_url = direct_url_v, d_requested_filename = filename,
                              d_status = None, d_message = None\<rparr> st;
                     st2 = update_progress e sid
                             (plain_snapshot ''starting'' ''Memulai download...'' 0) st1
                 in case (case (direct_url_v, platform_v) of
                            (Some u, Some p) \<Rightarrow>
                              if u \<noteq> [] \<and> (p = ''instagram'' \<or> p = ''bilibili_tv'')
                              then proxy_download_direct e sid video_url u format_id filename p st2
                              else proxy_download_ydl e sid video_url format_id filename st2
                          | _ \<Rightarrow> proxy_download_ydl e sid video_url format_id filename st2)
                    of (Inl x, st') \<Rightarrow>
                         (Json None (DownloadFailedWith x) 500,
                          st'\<lparr>download_progress := (download_progress st')(sid := None)\<rparr>)
                     | (Inr resp, st') \<Rightarrow> (resp, st'))))"

section \<open>Reading the progress log\<close>

text \<open>The percents of the \<open>downloading\<close> snapshots of a session among logged writes.\<close>

fun logged_percent :: "string \<Rightarrow> string \<times> snapshot \<Rightarrow> rat option" where
  "logged_percent sid (s, x) = (if s = sid \<and> status x = ''downloading'' then percent x else None)"

definition logged_percents :: "string \<Rightarrow> (string \<times> snapshot) list \<Rightarrow> rat list" where
  "logged_percents sid entries = List.map_filter (logged_percent sid) entries"

text \<open>The byte counts after each non-empty chunk.\<close>

fun running_totals :: "nat \<Rightarrow> nat list \<Rightarrow> nat list" where
  "running_totals d [] = []"
| "running_totals d (c # cs) =
     (if c \<noteq> 0 then (d + c) # running_totals (d + c) cs else running_totals d cs)"

text \<open>The total a hook event is measured against (\<open>total_bytes\<close>, else
  \<open>total_bytes_estimate\<close>) and its byte count.\<close>

definition hook_total :: "hook_event \<Rightarrow> rat option" where
  "hook_total d =
     (if present_and_true (total_bytes d)
      then (case total_bytes d of PyNum t \<Rightarrow> Some t | _ \<Rightarrow> None)
      else if present_and_true (total_bytes_estimate d)
      then (case total_bytes_estimate d of PyNum t \<Rightarrow> Some t | _ \<Rightarrow> None)
      else None)"

definition hook_done :: "hook_event \<Rightarrow> rat" where
  "hook_done d = (case downloaded_bytes d of PyNum n \<Rightarrow> n | _ \<Rightarrow> 0)"

text \<open>An event of a download whose total stays \<open>t\<close>: the status is \<open>downloading\<close> and the
  byte count is a number between 0 and \<open>t\<close>.\<close>

definition steady :: "rat \<Rightarrow> hook_event \<Rightarrow> bool" where
  "steady t d =
     (hk_status d = ''downloading'' \<and> hook_total d = Some t
      \<and> (case downloaded_bytes d of PyNum n \<Rightarrow> 0 \<le> n \<and> n \<le> t | _ \<Rightarrow> False))"

section \<open>Concrete inputs\<close>


text \<open>An environment in which every outside call fails; the concrete inputs below
  override what they need.\<close>

definition base_env :: env where
  "base_env = \<lparr>now = 1000, retention_hours = 24, remove_fails = (\<lambda>p. False),
     time_ms = ''1700000000000'', time_str = ''1700000000.0'',
     max_download_size_mb = Inr 500,
     urlparse = (\<lambda>u. Inl ValueError), gethostbyname = (\<lambda>h. Inl OSError),
     extract_bilibili_tv_info = (\<lambda>u. None), requests_get = (\<lambda>u. Inl RequestException),
     mkdtemp = ''/tmp/tmpdir0'',
     ydl_download = (\<lambda>u f p. \<lparr>hook_events = [], written = [], ydl_error = Some DownloadError,
        prepared_filename = []\<rparr>),
     ydl_extract_info = (\<lambda>u f p. \<lparr>hook_events = [], written = [], ydl_error = Some DownloadError,
        prepared_filename = []\<rparr>)\<rparr>"




definition dns_fail_env :: env where
  "dns_fail_env = base_env\<lparr>
     urlparse := (\<lambda>u. if u = ''http://no-such-host.invalid/v.mp4''
        then Inr \<lparr>scheme = ''http'', netloc = ''no-such-host.invalid'',
                  hostname = Some ''no-such-host.invalid''\<rparr>
        else Inl ValueError),
     gethostbyname := (\<lambda>h. Inl OSError)\<rparr>"

definition streaming_snapshot :: snapshot where
  "streaming_snapshot = \<lparr>status = ''streaming'', message = ''Mengirim file ke browser...'',
     percent = Some 100, downloaded = None, total = None\<rparr>"

definition vanishing_store :: "nat \<Rightarrow> snapshot option" where
  "vanishing_store k = (if k < 2 then Some streaming_snapshot else None)"

definition cdn_url :: string where "cdn_url = ''https://cdn.example.com/v.mp4''"

definition public_ip :: ip_address where
  "public_ip = \<lparr>is_private = False, is_loopback = False, is_reserved = False, is_link_local = False\<rparr>"

definition direct_env :: "int \<Rightarrow> header_int \<Rightarrow> nat list \<Rightarrow> env" where
  "direct_env code cl cs = base_env\<lparr>
     urlparse := (\<lambda>u. if u = cdn_url
        then Inr \<lparr>scheme = ''https'', netloc = ''cdn.example.com'', hostname = Some ''cdn.example.com''\<rparr>
        else Inl ValueError),
     gethostbyname := (\<lambda>h. if h = ''cdn.example.com'' then Inr public_ip else Inl OSError),
     requests_get := (\<lambda>u. if u = cdn_url
        then Inr \<lparr>status_code = code, content_length = cl, chunks = cs\<rparr>
        else Inl RequestException)\<rparr>"

definition empty_state :: state where
  "empty_state = \<lparr>pending_downloads = None, download_progress = Map.empty, tasks = [],
     files = [], dirs = [''/tmp''], progress_log = []\<rparr>"

definition clip_info :: download_info where
  "clip_info = \<lparr>info_video_url = Some ''https://x.com/watch'', info_direct_url = Some cdn_url,
     info_format_id = Some ''best'', info_filename = Some ''clip.mp4'',
     info_platform = Some ''generic''\<rparr>"

definition pending_state :: state where
  "pending_state = empty_state\<lparr>pending_downloads := Some [''s1'' \<mapsto> clip_info]\<rparr>"

definition no_fields :: request where
  "no_fields = \<lparr>rq_video_url = NoKey, rq_format_id = NoKey, rq_platform = NoKey,
     rq_direct_url = NoKey, rq_filename = NoKey, rq_session_id = None\<rparr>"

definition direct_request :: request where
  "direct_request = \<lparr>rq_video_url = NoKey, rq_format_id = NoKey, rq_platform = Str ''instagram'',
     rq_direct_url = Str cdn_url, rq_filename = Str ''clip.mp4'', rq_session_id = Some ''s1''\<rparr>"

text \<open>A session whose file name has a line feed inside.\<close>

definition two_line_info :: download_info where
  "two_line_info = clip_info\<lparr>info_filename := Some (''clip'' @ [CHR 0x0A] @ ''.mp4'')\<rparr>"

definition two_line_state :: state where
  "two_line_state = empty_state\<lparr>pending_downloads := Some [''s3'' \<mapsto> two_line_info]\<rparr>"

definition unsafe_info :: download_info where
  "unsafe_info = clip_info\<lparr>info_direct_url := Some ''http://10.0.0.5/v.mp4''\<rparr>"

definition private_env :: env where
  "private_env = base_env\<lparr>
     urlparse := (\<lambda>u. if u = ''http://10.0.0.5/v.mp4''
        then Inr \<lparr>scheme = ''http'', netloc = ''10.0.0.5'', hostname = Some ''10.0.0.5''\<rparr>
        else Inl ValueError),
     gethostbyname := (\<lambda>h. if h = ''10.0.0.5''
        then Inr \<lparr>is_private = True, is_loopback = False, is_reserved = False, is_link_local = False\<rparr>
        else Inl OSError)\<rparr>"

definition unsafe_state :: state where
  "unsafe_state = empty_state\<lparr>pending_downloads := Some [''s2'' \<mapsto> unsafe_info]\<rparr>"

definition ydl_request :: request where
  "ydl_request = \<lparr>rq_video_url = Str ''https://x.com/watch'', rq_format_id = Str ''best'',
     rq_platform = Str ''youtube'', rq_direct_url = NoKey, rq_filename = Str ''clip.mp4'',
     rq_session_id = Some ''s1''\<rparr>"

definition half_event :: hook_event where
  "half_event = \<lparr>hk_status = ''downloading'', total_bytes = PyNum 8, total_bytes_estimate = Absent,
     downloaded_bytes = PyNum 4\<rparr>"

definition finished_event :: hook_event where
  "finished_event = \<lparr>hk_status = ''finished'', total_bytes = PyNum 8,
     total_bytes_estimate = Absent, downloaded_bytes = PyNum 8\<rparr>"

definition ydl_env :: "(path \<times> nat) list \<Rightarrow> env" where
  "ydl_env ws = base_env\<lparr>
     ydl_extract_info := (\<lambda>u f p. \<lparr>hook_events = [half_event, finished_event],
        written = ws, ydl_error = None, prepared_filename = ''/tmp/tmpdir0/video.mp4''\<rparr>)\<rparr>"

definition direct_sent :: state where
  "direct_sent = snd (run_generate (direct_env 200 (Number 9) [9])
     (DirectGen ''/tmp/tmpdir0/clip.mp4'' ''/tmp/tmpdir0'') None
     (snd (proxy_download (direct_env 200 (Number 9) [9]) (Some direct_request) empty_state)))"

definition ydl_sent :: "(path \<times> nat) list \<Rightarrow> state" where
  "ydl_sent ws = snd (run_generate (ydl_env ws)
     (YdlGen ''/tmp/tmpdir0/video.mp4'' ''/tmp/tmpdir0'' ''s1'') None
     (snd (proxy_download (ydl_env ws) (Some ydl_request) empty_state)))"

definition big_env :: env where
  "big_env = direct_env 200 (Number 8388608) (replicate 16 524288)"

definition hooks_st :: state where
  "hooks_st = fold (progress_hook base_env ''s1'') [half_event, finished_event\<lparr>hk_status := ''downloading''\<rparr>]
     empty_state"

section \<open>The retention sweep\<close>




























section \<open>The safety gate\<close>

lemma host_is_private_resolution_error:
  "gethostbyname e (takeWhile (\<lambda>c. c \<noteq> CHR '':'') host) = Inl x \<Longrightarrow> \<not> host_is_private e host"
  by (simp add: host_is_private_def)

text \<open>
  C3. The claim asks that a URL whose host name cannot be resolved is refused. The code
  does not propagate the resolver's exception, but \<open>_host_is_private\<close> answers it with
  \<open>False\<close> (not private), so \<open>is_safe_public_url\<close> goes on and accepts the URL: here the
  resolver raises for \<open>no-such-host.invalid\<close> and the gate returns \<open>True\<close>.
\<close>

theorem is_safe_public_url_resolution_error:
  "gethostbyname dns_fail_env ''no-such-host.invalid'' = Inl OSError
   \<and> is_safe_public_url dns_fail_env ''http://no-such-host.invalid/v.mp4'' [] = True"
  by (simp add: is_safe_public_url_def host_is_private_def dns_fail_env_def base_env_def)

section \<open>The progress publisher\<close>

lemma sse_loop_stop:
  "\<not> t < max_timeout \<Longrightarrow> sse_loop store k t lst = ([Timeout], k)"
  by (subst sse_loop.simps) simp

lemma sse_loop_step_none:
  "t < max_timeout \<Longrightarrow> store k = None \<Longrightarrow>
   sse_loop store k t lst = sse_loop store (k + 1) (t + 3 / 10) lst"
  by (subst sse_loop.simps) simp

lemma sse_loop_step_same:
  "t < max_timeout \<Longrightarrow> store k = Some c \<Longrightarrow> lst = Some c \<Longrightarrow>
   sse_loop store k t lst = sse_loop store (k + 1) (t + 3 / 10) lst"
  by (subst sse_loop.simps) simp

lemma sse_loop_step_new:
  "t < max_timeout \<Longrightarrow> store k = Some c \<Longrightarrow> lst \<noteq> Some c \<Longrightarrow>
   sse_loop store k t lst
     = (Data c # fst (sse_loop store (k + 1) (t + 3 / 10) (Some c)),
        snd (sse_loop store (k + 1) (t + 3 / 10) (Some c)))"
  by (subst sse_loop.simps) (auto simp: case_prod_beta)

lemma sse_loop_absent:
  "(\<And>j. k \<le> j \<Longrightarrow> store j = None) \<Longrightarrow> fst (sse_loop store k t lst) = [Timeout]"
proof (induction store k t lst rule: sse_loop.induct)
  case (1 store k timeout last_status)
  show ?case
  proof (cases "timeout < max_timeout")
    case True
    have none: "store k = None" using "1.prems" by simp
    have "fst (sse_loop store (k + 1) (timeout + 3 / 10) last_status) = [Timeout]"
      using "1.IH"(1) [OF True none] "1.prems" by simp
    then show ?thesis
      by (simp add: sse_loop_step_none [where store = store and k = k, OF True none])
  next
    case False
    then show ?thesis by (simp add: sse_loop_stop)
  qed
qed

lemma sse_loop_passes:
  "snd (sse_loop store k t lst) = k + nat \<lceil>(max_timeout - t) * 10 / 3\<rceil>"
proof (induction store k t lst rule: sse_loop.induct)
  case (1 store k timeout last_status)
  show ?case
  proof (cases "timeout < max_timeout")
    case True
    have eq: "(max_timeout - (timeout + 3 / 10)) * 10 / 3 = (max_timeout - timeout) * 10 / 3 - 1"
      by (simp add: field_simps)
    from True have "0 < (max_timeout - timeout) * 10 / 3" by simp
    then have pos: "0 < \<lceil>(max_timeout - timeout) * 10 / 3\<rceil>"
      by (simp add: less_ceiling_iff)
    have "\<lceil>(max_timeout - (timeout + 3 / 10)) * 10 / 3\<rceil>
        = \<lceil>(max_timeout - timeout) * 10 / 3\<rceil> - 1"
      unfolding eq by simp
    with pos have step: "k + 1 + nat \<lceil>(max_timeout - (timeout + 3 / 10)) * 10 / 3\<rceil>
        = k + nat \<lceil>(max_timeout - timeout) * 10 / 3\<rceil>"
      by linarith
    show ?thesis
    proof (cases "store k")
      case None
      from "1.IH"(1) [OF True None] show ?thesis
        unfolding sse_loop_step_none [where store = store and k = k, OF True None] step .
    next
      case (Some current)
      show ?thesis
      proof (cases "Some current \<noteq> last_status")
        case new: True
        then have neq: "last_status \<noteq> Some current" by auto
        from "1.IH"(2) [OF True Some new] show ?thesis
          unfolding sse_loop_step_new [where store = store and k = k, OF True Some neq] snd_conv step .
      next
        case False
        then have same: "last_status = Some current" by simp
        from "1.IH"(3) [OF True Some False] show ?thesis
          unfolding sse_loop_step_same [where store = store and k = k, OF True Some same] step .
      qed
    qed
  next
    case False
    then have "\<lceil>(max_timeout - timeout) * 10 / 3\<rceil> \<le> 0"
      by (simp add: ceiling_le_iff field_simps)
    with False show ?thesis by (simp add: sse_loop_stop)
  qed
qed

lemma sse_loop_one_timeout:
  "\<exists>snaps. fst (sse_loop store k t lst) = map Data snaps @ [Timeout]"
proof (induction store k t lst rule: sse_loop.induct)
  case (1 store k timeout last_status)
  show ?case
  proof (cases "timeout < max_timeout")
    case True
    show ?thesis
    proof (cases "store k")
      case None
      from "1.IH"(1) [OF True None] show ?thesis
        unfolding sse_loop_step_none [where store = store and k = k, OF True None] .
    next
      case (Some current)
      show ?thesis
      proof (cases "Some current \<noteq> last_status")
        case new: True
        then have neq: "last_status \<noteq> Some current" by auto
        from "1.IH"(2) [OF True Some new] obtain snaps where
          "fst (sse_loop store (k + 1) (timeout + 3 / 10) (Some current)) = map Data snaps @ [Timeout]"
          by blast
        then have "fst (sse_loop store k timeout last_status) = map Data (current # snaps) @ [Timeout]"
          by (simp add: sse_loop_step_new [where store = store and k = k, OF True Some neq])
        then show ?thesis by blast
      next
        case False
        then have same: "last_status = Some current" by simp
        from "1.IH"(3) [OF True Some False] show ?thesis
          unfolding sse_loop_step_same [where store = store and k = k, OF True Some same] .
      qed
    qed
  next
    case False
    then have "fst (sse_loop store k timeout last_status) = map Data [] @ [Timeout]"
      by (simp add: sse_loop_stop)
    then show ?thesis by blast
  qed
qed

text \<open>
  C5. Every stream ends after 600 passes with exactly one timeout event
  (\<open>sse_loop_one_timeout\<close>, \<open>sse_loop_passes\<close>). The claim also asks that the stream
  closes, without a timeout event, when the entry of the session leaves the progress
  store. The loop has no such exit: here the store holds the \<open>streaming\<close> snapshot for
  two passes and then loses it, and the stream sends the snapshot, keeps polling up to
  the ceiling and ends with the timeout event.
\<close>

theorem get_download_progress_removed_entry:
  "get_download_progress vanishing_store = ([Data streaming_snapshot, Timeout], 600)"
proof -
  have rest: "fst (sse_loop vanishing_store 2 (3 / 5) (Some streaming_snapshot)) = [Timeout]"
    by (rule sse_loop_absent) (simp add: vanishing_store_def)
  have e0: "sse_loop vanishing_store 0 0 None
      = (Data streaming_snapshot # fst (sse_loop vanishing_store 1 (3 / 10) (Some streaming_snapshot)),
         snd (sse_loop vanishing_store 1 (3 / 10) (Some streaming_snapshot)))"
    using sse_loop_step_new [where store = vanishing_store and k = 0 and t = 0
        and c = streaming_snapshot and lst = None]
    by (simp add: vanishing_store_def max_timeout_def)
  have e1: "sse_loop vanishing_store 1 (3 / 10) (Some streaming_snapshot)
      = sse_loop vanishing_store 2 (3 / 5) (Some streaming_snapshot)"
    using sse_loop_step_same [where store = vanishing_store and k = 1 and t = "3 / 10"
        and c = streaming_snapshot and lst = "Some streaming_snapshot"]
    by (simp add: vanishing_store_def max_timeout_def numeral_2_eq_2)
  have "fst (get_download_progress vanishing_store) = [Data streaming_snapshot, Timeout]"
    unfolding get_download_progress_def e0 e1 using rest by simp
  moreover have "snd (get_download_progress vanishing_store) = 600"
    by (simp add: get_download_progress_def sse_loop_passes max_timeout_def)
  ultimately show ?thesis by (simp add: prod_eq_iff)
qed

section \<open>Session consumption (\<open>force_download\<close>)\<close>

lemma force_download_direct_state:
  "force_download_direct e sid info u st = (Inr resp, st') \<Longrightarrow>
   st' = (if is_stream resp then del_pending sid st else st)"
  by (auto simp: force_download_direct_def Let_def is_stream_def
      split: if_splits option.splits sum.splits)

lemma os_path_getsize_exists:
  "os_path_exists st p \<Longrightarrow> \<exists>n. os_path_getsize st p = Inr n"
  by (auto simp: os_path_exists_def os_path_getsize_def is_file_def split: option.splits)

lemma force_download_ydl_pending:
  "force_download_ydl e sid info st = (Inr resp, st') \<Longrightarrow>
   pending_downloads st' = (if is_stream resp then pending_downloads (del_pending sid st)
                            else pending_downloads st)"
  by (auto simp: force_download_ydl_def Let_def make_temp_dir_def write_files_def del_pending_def
      is_stream_def split: if_splits option.splits sum.splits)

lemma force_download_pending:
  assumes "force_download e sid st = (r, st')" and "\<forall>x. r \<noteq> Plain (DownloadErrorText x) 500"
  shows "pending_downloads st' = (if is_stream r then pending_downloads (del_pending sid st)
                                   else pending_downloads st)"
proof (cases "pending_downloads st")
  case None
  with assms show ?thesis by (auto simp: force_download_def is_stream_def)
next
  case (Some pending)
  show ?thesis
  proof (cases "pending sid")
    case None
    with Some assms show ?thesis by (auto simp: force_download_def is_stream_def)
  next
    case (Some info)
    define url where "url = force_download_url e info"
    define res where "res = (case url of
                           None \<Rightarrow> force_download_ydl e sid info st
                         | Some u \<Rightarrow>
                             if u \<noteq> [] \<and> prefix ''http'' u
                             then force_download_direct e sid info u st
                             else force_download_ydl e sid info st)"
    have fd: "force_download e sid st = (case res of (Inl x, st') \<Rightarrow> (Plain (DownloadErrorText x) 500, st')
                    | (Inr resp, st') \<Rightarrow> (resp, st'))"
      using Some \<open>pending_downloads st = Some pending\<close>
      by (simp add: force_download_def res_def url_def Let_def)
    obtain r0 st0 where res: "res = (r0, st0)" by (cases res)
    from assms fd res have r0: "r0 = Inr r" and st0: "st' = st0"
      by (auto split: sum.splits)
    show ?thesis
    proof (cases "\<exists>u. url = Some u \<and> u \<noteq> [] \<and> prefix ''http'' u")
      case True
      then obtain u where "url = Some u" "u \<noteq> []" "prefix ''http'' u" by blast
      with res r0 have "force_download_direct e sid info u st = (Inr r, st0)" by (simp add: res_def)
      from force_download_direct_state [OF this] st0 show ?thesis
        by simp
    next
      case False
      with res r0 have "force_download_ydl e sid info st = (Inr r, st0)"
        by (auto simp: res_def split: option.splits if_splits)
      from force_download_ydl_pending [OF this] st0 show ?thesis by simp
    qed
  qed
qed

lemma force_download_not_found:
  "pending_downloads st = Some pending \<Longrightarrow> pending sid = None \<Longrightarrow>
   force_download e sid st = (Plain SessionNotFound 404, st)"
  by (simp add: force_download_def)

lemma force_download_stream_had_session:
  "force_download e sid st = (Stream g, st') \<Longrightarrow> \<exists>pending info. pending_downloads st = Some pending \<and> pending sid = Some info"
  by (auto simp: force_download_def split: option.splits)

text \<open>
  C1 (as amended). When a request for a session id is answered with the streamed body,
  the id has left the registry, and every later request for it, whatever the outside
  world does, is answered with 404 ``Download session not found'' and changes nothing.
  A request that is answered with 400, 404, 413, the upstream's status or 500
  ``Download failed'' leaves the registry as it was. Nothing is said here about the
  registry after a 500 ``Download error: ...'', the answer to an exception.
\<close>

theorem force_download_consumes_on_stream:
  assumes "force_download e sid st = (r, st')"
  shows "(is_stream r \<longrightarrow>
            (\<exists>pending. pending_downloads st' = Some pending \<and> pending sid = None)
            \<and> (\<forall>e2. force_download e2 sid st' = (Plain SessionNotFound 404, st')))
       \<and> (\<not> is_stream r \<and> (\<forall>x. r \<noteq> Plain (DownloadErrorText x) 500)
            \<longrightarrow> pending_downloads st' = pending_downloads st)"
proof (intro conjI impI)
  assume s: "is_stream r"
  then obtain g where r: "r = Stream g" by (auto simp: is_stream_def split: response.splits)
  then have ne: "\<forall>x. r \<noteq> Plain (DownloadErrorText x) 500" by simp
  from force_download_stream_had_session assms r obtain pending info
    where p: "pending_downloads st = Some pending" "pending sid = Some info" by blast
  from force_download_pending [OF assms ne] s p
  have p': "pending_downloads st' = Some (pending(sid := None))"
    by (simp add: del_pending_def)
  then show "\<exists>pending. pending_downloads st' = Some pending \<and> pending sid = None"
    by simp
  from p' show "\<forall>e2. force_download e2 sid st' = (Plain SessionNotFound 404, st')"
    by (simp add: force_download_not_found)
next
  assume "\<not> is_stream r \<and> (\<forall>x. r \<noteq> Plain (DownloadErrorText x) 500)"
  with force_download_pending [OF assms] show "pending_downloads st' = pending_downloads st"
    by simp
qed

lemma force_download_eval_503:
  "force_download (direct_env 503 Missing []) ''s1'' pending_state
     = (Plain (FetchFailed 503) 503, pending_state)"
  by (simp add: force_download_def force_download_url_def force_download_direct_def Let_def
      pending_state_def empty_state_def clip_info_def direct_env_def base_env_def cdn_url_def is_safe_public_url_def
      host_is_private_def public_ip_def max_bytes_def too_large_def)

lemma force_download_eval_200:
  "force_download (direct_env 200 (Number 9) [9]) ''s1'' pending_state
     = (Stream (UpstreamGen [9]), del_pending ''s1'' pending_state)"
  by (simp add: force_download_def force_download_url_def force_download_direct_def Let_def
      pending_state_def empty_state_def clip_info_def direct_env_def base_env_def cdn_url_def is_safe_public_url_def
      host_is_private_def public_ip_def max_bytes_def too_large_def
      sanitize_filename_def py_strip_def py_isspace_def invalid_chars_def
      content_disposition_def header_value_ok_def)

text \<open>
  C1 as stated fails: the session is not deleted ``regardless of the outcome''. A first
  request whose upstream fetch answers 503 is answered with that status and keeps the
  session; the next request for the same id, with the upstream answering 200, is served
  the file instead of a 404.
\<close>

theorem force_download_failed_request_keeps_session:
  "fst (force_download (direct_env 503 Missing []) ''s1'' pending_state)
     = Plain (FetchFailed 503) 503
   \<and> fst (force_download (direct_env 200 (Number 9) [9]) ''s1''
          (snd (force_download (direct_env 503 Missing []) ''s1'' pending_state)))
     = Stream (UpstreamGen [9])"
  by (simp add: force_download_eval_503 force_download_eval_200)

theorem force_download_consumes_on_stream_witness:
  "force_download (direct_env 200 (Number 9) [9]) ''s1'' pending_state
     = (Stream (UpstreamGen [9]), del_pending ''s1'' pending_state)
   \<and> is_stream (Stream (UpstreamGen [9]))
   \<and> force_download (direct_env 503 Missing []) ''s1'' (del_pending ''s1'' pending_state)
     = (Plain SessionNotFound 404, del_pending ''s1'' pending_state)
   \<and> fst (force_download (direct_env 503 Missing []) ''s1'' pending_state)
     = Plain (FetchFailed 503) 503
   \<and> \<not> is_stream (Plain (FetchFailed 503) 503)
   \<and> (\<forall>x. Plain (FetchFailed 503) 503 \<noteq> Plain (DownloadErrorText x) 500)
   \<and> pending_downloads (snd (force_download (direct_env 503 Missing []) ''s1'' pending_state))
     = pending_downloads pending_state"
proof -
  have s: "is_stream (Stream (UpstreamGen [9]))" and n: "\<not> is_stream (Plain (FetchFailed 503) 503)"
    and d: "\<forall>x. Plain (FetchFailed 503) 503 \<noteq> Plain (DownloadErrorText x) 500"
    by (simp_all add: is_stream_def)
  from force_download_consumes_on_stream [OF force_download_eval_200] s
  have a: "force_download (direct_env 503 Missing []) ''s1'' (del_pending ''s1'' pending_state)
     = (Plain SessionNotFound 404, del_pending ''s1'' pending_state)"
    by blast
  have f: "fst (force_download (direct_env 503 Missing []) ''s1'' pending_state)
     = Plain (FetchFailed 503) 503"
    by (simp add: force_download_eval_503)
  then have pr: "force_download (direct_env 503 Missing []) ''s1'' pending_state
     = (Plain (FetchFailed 503) 503,
        snd (force_download (direct_env 503 Missing []) ''s1'' pending_state))"
    by (simp add: prod_eq_iff)
  from force_download_consumes_on_stream [OF pr] n d
  have b: "pending_downloads (snd (force_download (direct_env 503 Missing []) ''s1'' pending_state))
     = pending_downloads pending_state"
    by blast
  from a b f s n d force_download_eval_200 show ?thesis by blast
qed

text \<open>
  The answer to an exception can come after the deletion. A session whose file name has
  a line feed inside passes every check of the direct branch; the session is deleted,
  the \<open>Response\<close> refuses the header, and the request is answered with 500 while the
  session is gone without having been served.
\<close>

lemma force_download_line_break_in_name:
  "force_download (direct_env 200 (Number 9) [9]) ''s3'' two_line_state
     = (Plain (DownloadErrorText ValueError) 500, del_pending ''s3'' two_line_state)"
  by (simp add: force_download_def force_download_url_def force_download_direct_def Let_def
      two_line_state_def two_line_info_def empty_state_def clip_info_def direct_env_def
      base_env_def cdn_url_def is_safe_public_url_def
      host_is_private_def public_ip_def max_bytes_def too_large_def
      sanitize_filename_def py_strip_def py_isspace_def invalid_chars_def
      content_disposition_def header_value_ok_def)

section \<open>What the bookkeeping leaves alone\<close>

lemma db_update_frame:
  "files (db_update sid f st) = files st \<and> dirs (db_update sid f st) = dirs st
   \<and> pending_downloads (db_update sid f st) = pending_downloads st
   \<and> download_progress (db_update sid f st) = download_progress st
   \<and> progress_log (db_update sid f st) = progress_log st"
  by (simp add: db_update_def)

lemma upsert_task_frame:
  "files (upsert_task e sid d st) = files st \<and> dirs (upsert_task e sid d st) = dirs st
   \<and> pending_downloads (upsert_task e sid d st) = pending_downloads st
   \<and> download_progress (upsert_task e sid d st) = download_progress st
   \<and> progress_log (upsert_task e sid d st) = progress_log st"
  by (simp add: upsert_task_def Let_def db_update_frame split: option.splits)

lemma mark_status_frame:
  "files (mark_status e sid s m p st) = files st \<and> dirs (mark_status e sid s m p st) = dirs st
   \<and> pending_downloads (mark_status e sid s m p st) = pending_downloads st
   \<and> download_progress (mark_status e sid s m p st) = download_progress st
   \<and> progress_log (mark_status e sid s m p st) = progress_log st"
  by (simp add: mark_status_def db_update_frame upsert_task_frame)

lemma register_storage_frame:
  "files (register_storage e sid p t n st) = files st
   \<and> dirs (register_storage e sid p t n st) = dirs st
   \<and> pending_downloads (register_storage e sid p t n st) = pending_downloads st
   \<and> download_progress (register_storage e sid p t n st) = download_progress st
   \<and> progress_log (register_storage e sid p t n st) = progress_log st"
  by (simp add: register_storage_def db_update_frame upsert_task_frame)

lemma update_progress_frame:
  "files (update_progress e sid x st) = files st \<and> dirs (update_progress e sid x st) = dirs st
   \<and> pending_downloads (update_progress e sid x st) = pending_downloads st
   \<and> download_progress (update_progress e sid x st) = (download_progress st)(sid \<mapsto> x)
   \<and> progress_log (update_progress e sid x st) = progress_log st @ [(sid, x)]"
  by (simp add: update_progress_def mark_status_frame)

section \<open>The size ceiling\<close>

lemma too_large_exceeds:
  "content_length response = Number cl \<Longrightarrow> mb * 1024 * 1024 < cl \<Longrightarrow> 0 \<le> mb \<Longrightarrow>
   too_large response (mb * 1024 * 1024)"
  by (auto simp: too_large_def)

lemma force_download_too_large:
  assumes "max_download_size_mb e = Inr mb" "0 \<le> mb"
    and "content_length response = Number cl" "mb * 1024 * 1024 < cl"
    and "pending_downloads st = Some pending" "pending sid = Some info"
    and "force_download_url e info = Some u" "prefix ''http'' u"
    and "is_safe_public_url e u []" "info_filename info = Some fname"
    and "requests_get e u = Inr response"
  shows "force_download e sid st = (Plain (FileTooLarge mb) 413, st)"
proof -
  from assms(8) have "u \<noteq> []" by auto
  moreover have "force_download_direct e sid info u st = (Inr (Plain (FileTooLarge mb) 413), st)"
    using assms too_large_exceeds [OF assms(3,4,2)]
    by (simp add: force_download_direct_def max_bytes_def)
  ultimately show ?thesis
    using assms by (simp add: force_download_def)
qed

lemma proxy_download_direct_too_large:
  assumes "max_download_size_mb e = Inr mb" "0 \<le> mb"
    and "content_length response = Number cl" "mb * 1024 * 1024 < cl"
    and "is_safe_public_url e u0 []"
    and "(if p = ''bilibili_tv'' then refresh_direct_url e video_url format_id (Some u0)
          else Some u0) = Some u"
    and "requests_get e u = Inr response"
  shows "fst (proxy_download_direct e sid video_url u0 format_id (Some fname) p st)
           = Inr (Json None (FileTooLarge mb) 413)
       \<and> files (snd (proxy_download_direct e sid video_url u0 format_id (Some fname) p st)) = files st"
  using assms too_large_exceeds [OF assms(3,4,2)]
  by (simp add: proxy_download_direct_def Let_def max_bytes_def update_progress_frame
      register_storage_frame make_temp_dir_def)

lemma proxy_download_too_large:
  assumes "max_download_size_mb e = Inr mb" "0 \<le> mb"
    and "content_length response = Number cl" "mb * 1024 * 1024 < cl"
    and "get_field (rq_direct_url data) = Some u0" "u0 \<noteq> []"
    and "get_default (rq_platform data) [] = Some p" "p = ''instagram'' \<or> p = ''bilibili_tv''"
    and "get_default (rq_filename data) ''video.mp4'' = Some fname"
    and "is_safe_public_url e u0 []"
    and "(if p = ''bilibili_tv''
          then refresh_direct_url e (get_field (rq_video_url data)) (get_field (rq_format_id data)) (Some u0)
          else Some u0) = Some u"
    and "requests_get e u = Inr response"
  shows "fst (proxy_download e (Some data) st) = Json None (FileTooLarge mb) 413
       \<and> files (snd (proxy_download e (Some data) st)) = files st"
proof -
  let ?sid = "case rq_session_id data of None \<Rightarrow> time_str e | Some s \<Rightarrow> s"
  let ?st2 = "update_progress e ?sid (plain_snapshot ''starting'' ''Memulai download...'' 0)
     (upsert_task e ?sid
        \<lparr>d_platform = Some p,
         d_source_url = (if truthy (get_field (rq_video_url data)) then get_field (rq_video_url data)
                         else Some u0),
         d_direct_url = Some u0, d_requested_filename = Some fname,
         d_status = None, d_message = None\<rparr> st)"
  have f2: "files ?st2 = files st"
    by (simp add: update_progress_frame upsert_task_frame)
  obtain r st' where res: "proxy_download_direct e ?sid (get_field (rq_video_url data)) u0
      (get_field (rq_format_id data)) (Some fname) p ?st2 = (r, st')"
    by (cases "proxy_download_direct e ?sid (get_field (rq_video_url data)) u0
      (get_field (rq_format_id data)) (Some fname) p ?st2")
  from proxy_download_direct_too_large [OF assms(1-4,10,11,12), of ?sid fname ?st2] res f2
  have r: "r = Inr (Json None (FileTooLarge mb) 413)" and f: "files st' = files st"
    by simp_all
  from assms(5-9) res r f show ?thesis
    by (simp add: proxy_download_def Let_def)
qed

text \<open>
  C8. Let the configured maximum be \<open>mb\<close> megabytes (a non-negative integer), and let the
  upstream fetch return a response whose \<open>Content-Length\<close> is a number above
  \<open>mb * 1024 * 1024\<close>. Then a \<open>force_download\<close> request that reaches the fetch (the session
  exists, its URL starts with \<open>http\<close> and passes the safety gate, the file name is a
  string) is answered with 413 ``File too large'' and changes nothing at all; and a
  \<open>proxy_download\<close> request in direct mode that reaches the fetch is answered with 413
  and the JSON error ``File too large'', with the set of files on disk as it was before
  the request: the body is never opened for writing.
\<close>

theorem size_ceiling_rejects_before_write:
  assumes "max_download_size_mb e = Inr mb" and "0 \<le> mb"
    and "requests_get e u = Inr response"
    and "content_length response = Number cl" and "mb * 1024 * 1024 < cl"
  shows "(pending_downloads st = Some pending \<and> pending sid = Some info
          \<and> force_download_url e info = Some u \<and> prefix ''http'' u
          \<and> is_safe_public_url e u [] \<and> info_filename info = Some fname
        \<longrightarrow> force_download e sid st = (Plain (FileTooLarge mb) 413, st))
    \<and> (get_field (rq_direct_url data) = Some u0 \<and> u0 \<noteq> []
          \<and> get_default (rq_platform data) [] = Some p \<and> (p = ''instagram'' \<or> p = ''bilibili_tv'')
          \<and> get_default (rq_filename data) ''video.mp4'' = Some fname
          \<and> is_safe_public_url e u0 []
          \<and> (if p = ''bilibili_tv''
              then refresh_direct_url e (get_field (rq_video_url data))
                     (get_field (rq_format_id data)) (Some u0)
              else Some u0) = Some u
        \<longrightarrow> fst (proxy_download e (Some data) st) = Json None (FileTooLarge mb) 413
            \<and> files (snd (proxy_download e (Some data) st)) = files st)"
  using force_download_too_large [OF assms(1,2,4,5), of st pending sid info u fname]
    proxy_download_too_large [OF assms(1,2,4,5), of data u0 p fname u st] assms(3)
  by blast

theorem size_ceiling_rejects_before_write_witness:
  "force_download (direct_env 200 (Number 600000000) [9]) ''s1'' pending_state
     = (Plain (FileTooLarge 500) 413, pending_state)
   \<and> fst (proxy_download (direct_env 200 (Number 600000000) [9]) (Some direct_request) empty_state)
     = Json None (FileTooLarge 500) 413
   \<and> files (snd (proxy_download (direct_env 200 (Number 600000000) [9]) (Some direct_request)
        empty_state)) = files empty_state"
proof -
  let ?e = "direct_env 200 (Number 600000000) [9]"
  let ?r = "\<lparr>status_code = 200, content_length = Number 600000000, chunks = [9]\<rparr>"
  have safe: "is_safe_public_url ?e cdn_url []"
    by (simp add: direct_env_def base_env_def cdn_url_def is_safe_public_url_def
        host_is_private_def public_ip_def)
  have e: "max_download_size_mb ?e = Inr 500" "(0::int) \<le> 500" "requests_get ?e cdn_url = Inr ?r"
    "content_length ?r = Number 600000000" "(500::int) * 1024 * 1024 < 600000000"
    by (simp_all add: direct_env_def base_env_def)
  have f: "pending_downloads pending_state = Some [''s1'' \<mapsto> clip_info]
      \<and> [''s1'' \<mapsto> clip_info] ''s1'' = Some clip_info
      \<and> force_download_url ?e clip_info = Some cdn_url \<and> prefix ''http'' cdn_url
      \<and> info_filename clip_info = Some ''clip.mp4''"
    by (simp add: pending_state_def empty_state_def clip_info_def force_download_url_def cdn_url_def)
  have p: "get_field (rq_direct_url direct_request) = Some cdn_url \<and> cdn_url \<noteq> []
      \<and> get_default (rq_platform direct_request) [] = Some ''instagram''
      \<and> get_default (rq_filename direct_request) ''video.mp4'' = Some ''clip.mp4''"
    by (simp add: direct_request_def cdn_url_def)
  note th1 = size_ceiling_rejects_before_write [OF e, where st = pending_state
      and pending = "[''s1'' \<mapsto> clip_info]" and sid = "''s1''" and info = clip_info
      and fname = "''clip.mp4''"]
  note th2 = size_ceiling_rejects_before_write [OF e, where st = empty_state
      and data = direct_request and ?u0.0 = cdn_url and p = "''instagram''"
      and fname = "''clip.mp4''"]
  have 1: "force_download ?e ''s1'' pending_state = (Plain (FileTooLarge 500) 413, pending_state)"
    using th1 f safe by blast
  have 2: "fst (proxy_download ?e (Some direct_request) empty_state) = Json None (FileTooLarge 500) 413
       \<and> files (snd (proxy_download ?e (Some direct_request) empty_state)) = files empty_state"
    using th2 p safe by simp
  from 1 2 show ?thesis by blast
qed

section \<open>Rejected requests\<close>

lemma force_download_ydl_not_unsafe:
  "force_download_ydl e sid info st = (r, st') \<Longrightarrow> r \<noteq> Inr (Plain UnsafeDownloadUrl 400)"
  by (auto simp: force_download_ydl_def Let_def split: option.splits sum.splits if_splits)

lemma force_download_unsafe_state:
  assumes "force_download e sid st = (Plain UnsafeDownloadUrl 400, st')"
  shows "st' = st"
proof (cases "pending_downloads st")
  case None
  with assms show ?thesis by (simp add: force_download_def)
next
  case (Some pending)
  show ?thesis
  proof (cases "pending sid")
    case None
    with Some assms show ?thesis by (simp add: force_download_def)
  next
    case (Some info)
    define res where "res = (case force_download_url e info of
                           None \<Rightarrow> force_download_ydl e sid info st
                         | Some u \<Rightarrow>
                             if u \<noteq> [] \<and> prefix ''http'' u
                             then force_download_direct e sid info u st
                             else force_download_ydl e sid info st)"
    obtain r0 st0 where res: "res = (r0, st0)" by (cases res)
    from assms Some \<open>pending_downloads st = Some pending\<close> res
    have r0: "r0 = Inr (Plain UnsafeDownloadUrl 400)" and st0: "st0 = st'"
      by (auto simp: force_download_def Let_def res_def [symmetric] split: sum.splits)
    show ?thesis
    proof (cases "\<exists>u. force_download_url e info = Some u \<and> u \<noteq> [] \<and> prefix ''http'' u")
      case True
      then obtain u where "force_download_url e info = Some u" "u \<noteq> []" "prefix ''http'' u"
        by blast
      with res r0 have "force_download_direct e sid info u st = (Inr (Plain UnsafeDownloadUrl 400), st0)"
        by (simp add: res_def)
      from force_download_direct_state [OF this] st0 show ?thesis by (simp add: is_stream_def)
    next
      case False
      with res have "force_download_ydl e sid info st = (r0, st0)"
        by (auto simp: res_def split: option.splits if_splits)
      from force_download_ydl_not_unsafe [OF this] r0 show ?thesis by simp
    qed
  qed
qed

text \<open>
  Two rejections happen before anything is written. A \<open>proxy_download\<close> request with
  neither a video URL nor a direct URL is answered at once with 400 and the JSON object
  \<open>{error: "Video URL is required"}\<close>, and the state is unchanged: no registry entry, no
  progress snapshot, no task record. A \<open>force_download\<close> request answered with 400
  ``Invalid or unsafe download URL'' leaves the state unchanged as well.
\<close>

lemma rejected_requests_create_no_state:
  "(\<not> truthy (get_field (rq_video_url data)) \<and> \<not> truthy (get_field (rq_direct_url data))
      \<longrightarrow> proxy_download e (Some data) st = (Json None VideoUrlRequired 400, st))
   \<and> (force_download e sid st = (Plain UnsafeDownloadUrl 400, st') \<longrightarrow> st' = st)"
  using force_download_unsafe_state [of e sid st st']
  by (simp add: proxy_download_def Let_def)

lemma rejected_requests_create_no_state_example:
  "proxy_download base_env (Some no_fields) empty_state = (Json None VideoUrlRequired 400, empty_state)
   \<and> force_download private_env ''s2'' unsafe_state = (Plain UnsafeDownloadUrl 400, unsafe_state)"
proof -
  have a: "\<not> truthy (get_field (rq_video_url no_fields)) \<and> \<not> truthy (get_field (rq_direct_url no_fields))"
    by (simp add: no_fields_def)
  have b: "fst (force_download private_env ''s2'' unsafe_state) = Plain UnsafeDownloadUrl 400"
    by (simp add: force_download_def force_download_url_def force_download_direct_def
        unsafe_state_def empty_state_def unsafe_info_def clip_info_def private_env_def base_env_def
        is_safe_public_url_def host_is_private_def)
  then have c: "force_download private_env ''s2'' unsafe_state
      = (Plain UnsafeDownloadUrl 400, snd (force_download private_env ''s2'' unsafe_state))"
    by (simp add: prod_eq_iff)
  note th = rejected_requests_create_no_state [where data = no_fields and e = base_env
      and st = empty_state]
  note th2 = rejected_requests_create_no_state [where e = private_env and sid = "''s2''"
      and st = unsafe_state and st' = "snd (force_download private_env ''s2'' unsafe_state)"]
  from th a have 1: "proxy_download base_env (Some no_fields) empty_state
      = (Json None VideoUrlRequired 400, empty_state)" by blast
  from th2 c have "snd (force_download private_env ''s2'' unsafe_state) = unsafe_state" by blast
  with c have 2: "force_download private_env ''s2'' unsafe_state
      = (Plain UnsafeDownloadUrl 400, unsafe_state)" by simp
  from 1 2 show ?thesis by blast
qed

text \<open>
  C7. The claim asks that a request that fails validation, such as one that names no
  URL, is turned away with a 4xx answer and creates no session: no registry entry, no
  progress snapshot, no task record. \<open>proxy_download\<close> turns a request without URL away
  with 400 and an unchanged state (last conjunct). \<open>get_download_url\<close> makes no check:
  the same request, a JSON object with neither URL nor format, is answered with success
  and a download URL, and a session and a task record exist afterwards.
\<close>

theorem get_download_url_creates_session_without_url:
  "fst (get_download_url base_env (Some no_fields) empty_state)
     = JsonUrl ''/api/force-download/1700000000000''
   \<and> map_option (\<lambda>m. m ''1700000000000'')
        (pending_downloads (snd (get_download_url base_env (Some no_fields) empty_state)))
     = Some (Some \<lparr>info_video_url = None, info_direct_url = None, info_format_id = None,
          info_filename = Some ''video.mp4'', info_platform = None\<rparr>)
   \<and> map (\<lambda>t. (session_id t, task_status t))
        (tasks (snd (get_download_url base_env (Some no_fields) empty_state)))
     = [(''1700000000000'', Some ''pending'')]
   \<and> proxy_download base_env (Some no_fields) empty_state
     = (Json None VideoUrlRequired 400, empty_state)"
  by (simp add: get_download_url_def proxy_download_def no_fields_def empty_state_def base_env_def
      upsert_task_def new_task_def apply_defaults_def touch_def extend_expiry_def Let_def)

section \<open>Upstream errors\<close>

text \<open>
  C6. The claim asks that a non-200 answer of the upstream aborts the download.
  \<open>force_download\<close> does so (last conjunct), but the direct mode of \<open>proxy_download\<close>
  never reads the status: with the upstream answering 403 and a body of 9 bytes, the body
  is written to the temporary file, the handler returns the streamed response, the file
  is on disk and the progress store holds the \<open>streaming\<close> snapshot.
\<close>

theorem proxy_download_streams_upstream_error:
  "fst (proxy_download (direct_env 403 (Number 9) [9]) (Some direct_request) empty_state)
     = Stream (DirectGen ''/tmp/tmpdir0/clip.mp4'' ''/tmp/tmpdir0'')
   \<and> files (snd (proxy_download (direct_env 403 (Number 9) [9]) (Some direct_request) empty_state))
     = [(''/tmp/tmpdir0/clip.mp4'', 9)]
   \<and> download_progress
        (snd (proxy_download (direct_env 403 (Number 9) [9]) (Some direct_request) empty_state)) ''s1''
     = Some streaming_snapshot
   \<and> fst (force_download (direct_env 403 (Number 9) [9]) ''s1'' pending_state)
     = Plain (FetchFailed 403) 403"
  by code_simp

section \<open>Clean-up after streaming\<close>

text \<open>The state after the body has been sent does not depend on how much of it the client
  read: the \<open>finally\<close> blocks run in every case.\<close>

lemma run_generate_direct_state:
  "snd (run_generate e (DirectGen temp_file temp_dir) reads st) = cleanup_direct e temp_file temp_dir st"
  by (simp split: option.splits)

lemma run_generate_ydl_state:
  "snd (run_generate e (YdlGen downloaded_file temp_dir sid) reads st)
     = cleanup_ydl e downloaded_file temp_dir sid st"
  by (simp split: option.splits)

text \<open>
  C2. The claim asks that, once the body has been sent, the temporary file and directory
  are gone, the progress store has lost the session id and the task record is
  \<open>completed\<close> with its \<open>storage_path\<close> cleared. In the direct mode the file and the
  directory are removed, but the \<open>finally\<close> block does not touch the progress store (the
  yt-dlp mode's block does), and no path of \<open>proxy_download\<close> calls
  \<open>mark_file_deleted\<close>: after a complete direct-mode download of 9 bytes the store still
  holds the \<open>streaming\<close> snapshot and the task record is \<open>streaming\<close> with its
  \<open>storage_path\<close> set.
\<close>

theorem proxy_download_direct_leaves_progress:
  "fst (proxy_download (direct_env 200 (Number 9) [9]) (Some direct_request) empty_state)
     = Stream (DirectGen ''/tmp/tmpdir0/clip.mp4'' ''/tmp/tmpdir0'')
   \<and> files direct_sent = [] \<and> dirs direct_sent = [''/tmp'']
   \<and> download_progress direct_sent ''s1'' = Some streaming_snapshot
   \<and> map (\<lambda>t. (session_id t, task_status t, storage_path t)) (tasks direct_sent)
     = [(''s1'', Some ''streaming'', Some ''/tmp/tmpdir0/clip.mp4'')]"
  unfolding direct_sent_def run_generate_direct_state by code_simp

text \<open>
  The yt-dlp mode removes the snapshot, and leaves the task record \<open>streaming\<close>; when
  yt-dlp has left a second file in the directory, \<open>os.rmdir\<close> fails and the snapshot
  stays as well.
\<close>

lemma proxy_download_ydl_run:
  "fst (proxy_download (ydl_env [(''/tmp/tmpdir0/video.mp4'', 8)]) (Some ydl_request) empty_state)
     = Stream (YdlGen ''/tmp/tmpdir0/video.mp4'' ''/tmp/tmpdir0'' ''s1'')
   \<and> files (ydl_sent [(''/tmp/tmpdir0/video.mp4'', 8)]) = []
   \<and> dirs (ydl_sent [(''/tmp/tmpdir0/video.mp4'', 8)]) = [''/tmp'']
   \<and> download_progress (ydl_sent [(''/tmp/tmpdir0/video.mp4'', 8)]) ''s1'' = None
   \<and> map (\<lambda>t. (session_id t, task_status t, storage_path t))
        (tasks (ydl_sent [(''/tmp/tmpdir0/video.mp4'', 8)]))
     = [(''s1'', Some ''streaming'', None)]"
  unfolding ydl_sent_def run_generate_ydl_state by code_simp

lemma proxy_download_ydl_run_leftover:
  "fst (proxy_download (ydl_env [(''/tmp/tmpdir0/video.mp4'', 8), (''/tmp/tmpdir0/video.f140.m4a'', 2)])
          (Some ydl_request) empty_state)
     = Stream (YdlGen ''/tmp/tmpdir0/video.mp4'' ''/tmp/tmpdir0'' ''s1'')
   \<and> files (ydl_sent [(''/tmp/tmpdir0/video.mp4'', 8), (''/tmp/tmpdir0/video.f140.m4a'', 2)])
     = [(''/tmp/tmpdir0/video.f140.m4a'', 2)]
   \<and> dirs (ydl_sent [(''/tmp/tmpdir0/video.mp4'', 8), (''/tmp/tmpdir0/video.f140.m4a'', 2)])
     = [''/tmp'', ''/tmp/tmpdir0'']
   \<and> download_progress (ydl_sent [(''/tmp/tmpdir0/video.mp4'', 8), (''/tmp/tmpdir0/video.f140.m4a'', 2)])
        ''s1'' = Some streaming_snapshot"
  unfolding ydl_sent_def run_generate_ydl_state by code_simp

section \<open>Progress percentages\<close>

lemma round_half_even_bounds: "\<lfloor>z\<rfloor> \<le> round_half_even z \<and> round_half_even z \<le> \<lfloor>z\<rfloor> + 1"
  by (simp add: round_half_even_def Let_def)

lemma round_half_even_mono:
  assumes "x \<le> y"
  shows "round_half_even x \<le> round_half_even y"
proof (cases "\<lfloor>x\<rfloor> = \<lfloor>y\<rfloor>")
  case True
  with assms have "x - of_int \<lfloor>x\<rfloor> \<le> y - of_int \<lfloor>y\<rfloor>" by simp
  with True show ?thesis
    by (auto simp: round_half_even_def Let_def)
next
  case False
  with assms have "\<lfloor>x\<rfloor> < \<lfloor>y\<rfloor>"
    using floor_mono [OF assms] by linarith
  with round_half_even_bounds [of x] round_half_even_bounds [of y] show ?thesis
    by linarith
qed

lemma round_half_even_of_int: "round_half_even (of_int n) = n"
  by (simp add: round_half_even_def)

lemma round_half_even_nonneg: "0 \<le> x \<Longrightarrow> 0 \<le> round_half_even x"
  using round_half_even_mono [of 0 x] round_half_even_of_int [of 0] by simp

text \<open>The bit length of a positive integer brackets it between two powers of 2.\<close>

lemma bitlen_bounds_rat:
  assumes "0 < p"
  shows "(2::rat) powi (bitlen p - 1) \<le> of_int p" and "of_int p < (2::rat) powi bitlen p"
proof -
  from assms have b1: "1 \<le> bitlen p" by (auto simp: bitlen_alt_def)
  from bitlen_bounds [OF assms] have lo: "2 ^ nat (bitlen p - 1) \<le> p" and hi: "p < 2 ^ nat (bitlen p)"
    by simp_all
  from lo have "(of_int (2 ^ nat (bitlen p - 1)) :: rat) \<le> of_int p"
    by (simp only: of_int_le_iff)
  with b1 show "(2::rat) powi (bitlen p - 1) \<le> of_int p"
    by (simp add: power_int_nonneg_exp)
  from hi have "(of_int p :: rat) < of_int (2 ^ nat (bitlen p))"
    by (simp only: of_int_less_iff)
  with b1 show "of_int p < (2::rat) powi bitlen p"
    by (simp add: power_int_nonneg_exp)
qed

text \<open>\<open>floor_log2\<close> is the exponent of the power of 2 at or below a positive number.\<close>

lemma floor_log2_bounds:
  assumes "0 < x"
  shows "2 powi floor_log2 x \<le> x" and "x < 2 powi (floor_log2 x + 1)"
proof -
  obtain p q where pq: "quotient_of x = (p, q)" by (cases "quotient_of x")
  then have q: "0 < q" and x: "x = of_int p / of_int q"
    using quotient_of_denom_pos quotient_of_div by auto
  with assms have p: "0 < p" by (simp add: zero_less_divide_iff)
  define d where "d = bitlen p - bitlen q"
  have fl: "floor_log2 x = (if 2 powi d \<le> x then d else d - 1)"
    by (simp add: floor_log2_def pq d_def Let_def)
  note bp = bitlen_bounds_rat [OF p] and bq = bitlen_bounds_rat [OF q]
  have qpos: "(0::rat) < of_int q" using q by simp
  have up: "x < 2 powi (d + 1)"
  proof -
    have "of_int p < (2::rat) powi bitlen p" by (rule bp(2))
    also have "\<dots> = 2 powi (d + 1) * 2 powi (bitlen q - 1)"
      by (simp add: d_def power_int_add [symmetric])
    also have "\<dots> \<le> 2 powi (d + 1) * of_int q"
      using bq(1) by (intro mult_left_mono) simp_all
    finally have "(of_int p :: rat) / of_int q < 2 powi (d + 1)"
      using qpos by (simp add: divide_less_eq)
    then show ?thesis by (simp add: x)
  qed
  have lo: "2 powi (d - 1) \<le> x"
  proof -
    have "(2::rat) powi (d - 1) * of_int q \<le> 2 powi (d - 1) * 2 powi bitlen q"
      using bq(2) by (intro mult_left_mono) simp_all
    also have "\<dots> = 2 powi (bitlen p - 1)"
      by (simp add: d_def power_int_add [symmetric])
    also have "\<dots> \<le> of_int p" by (rule bp(1))
    finally have "2 powi (d - 1) \<le> (of_int p :: rat) / of_int q"
      using qpos by (simp add: le_divide_eq)
    then show ?thesis by (simp add: x)
  qed
  show "2 powi floor_log2 x \<le> x"
    using lo by (simp add: fl)
  show "x < 2 powi (floor_log2 x + 1)"
    using up by (auto simp add: fl not_le)
qed

lemma floor_log2_mono:
  assumes "0 < x" "x \<le> y"
  shows "floor_log2 x \<le> floor_log2 y"
proof (rule ccontr)
  assume "\<not> floor_log2 x \<le> floor_log2 y"
  then have "floor_log2 y + 1 \<le> floor_log2 x" by simp
  then have "(2::rat) powi (floor_log2 y + 1) \<le> 2 powi floor_log2 x"
    by (intro power_int_increasing) simp_all
  also have "\<dots> \<le> x" by (rule floor_log2_bounds(1) [OF assms(1)])
  also note assms(2)
  finally show False
    using floor_log2_bounds(2) [of y] assms by simp
qed

lemma ulp_of_pos: "0 < ulp_of x"
  by (simp add: ulp_of_def)

lemma to_double_scaled:
  "x \<noteq> 0 \<Longrightarrow> to_double x = of_int (round_half_even (x / ulp_of x)) * ulp_of x"
  by (simp add: to_double_def)

lemma to_double_nonneg:
  assumes "0 \<le> x"
  shows "0 \<le> to_double x"
proof (cases "x = 0")
  case True
  then show ?thesis by (simp add: to_double_def)
next
  case False
  from assms ulp_of_pos [of x] have "0 \<le> x / ulp_of x" by simp
  then have "0 \<le> round_half_even (x / ulp_of x)" by (rule round_half_even_nonneg)
  with ulp_of_pos [of x] show ?thesis
    by (simp add: to_double_scaled [OF False])
qed

text \<open>Rounding a positive number to a double does not leave its binade: the powers
  of 2 around it are doubles themselves.\<close>

lemma to_double_upper:
  assumes "0 < x"
  shows "to_double x \<le> 2 powi (max (floor_log2 x) (- 1022) + 1)"
proof -
  define E where "E = max (floor_log2 x) (- 1022)"
  have u: "ulp_of x = 2 powi (E - 52)"
    using assms by (simp add: ulp_of_def E_def)
  have split: "(2::rat) powi 53 * 2 powi (E - 52) = 2 powi (E + 1)"
  proof -
    have "(2::rat) powi 53 * 2 powi (E - 52) = 2 powi (53 + (E - 52))"
      by (rule power_int_add [symmetric]) simp
    moreover have "53 + (E - 52) = E + 1" by simp
    ultimately show ?thesis by (simp only:)
  qed
  have k: "(of_int (2 ^ 53) :: rat) = 2 powi 53" by simp
  have "x < 2 powi (floor_log2 x + 1)" by (rule floor_log2_bounds(2) [OF assms])
  also have "\<dots> \<le> 2 powi (E + 1)"
    by (intro power_int_increasing) (simp_all add: E_def)
  also have "\<dots> = 2 powi 53 * ulp_of x"
    by (simp only: u split)
  finally have "x / ulp_of x \<le> 2 powi 53"
    using ulp_of_pos [of x] by (simp add: divide_le_eq)
  then have "x / ulp_of x \<le> of_int (2 ^ 53)" by (simp only: k)
  then have "round_half_even (x / ulp_of x) \<le> round_half_even (of_int (2 ^ 53))"
    by (rule round_half_even_mono)
  then have "round_half_even (x / ulp_of x) \<le> 2 ^ 53"
    by (simp only: round_half_even_of_int)
  then have "(of_int (round_half_even (x / ulp_of x)) :: rat) \<le> of_int (2 ^ 53)"
    by (simp only: of_int_le_iff)
  then have "of_int (round_half_even (x / ulp_of x)) * ulp_of x \<le> of_int (2 ^ 53) * ulp_of x"
    using ulp_of_pos [of x] by (intro mult_right_mono) simp_all
  also have "of_int (2 ^ 53) * ulp_of x = 2 powi (E + 1)"
    by (simp only: k u split)
  finally show ?thesis
    using assms by (simp add: to_double_scaled E_def)
qed

lemma to_double_lower:
  assumes "0 < x" "- 1022 \<le> floor_log2 x"
  shows "2 powi floor_log2 x \<le> to_double x"
proof -
  define E where "E = floor_log2 x"
  have u: "ulp_of x = 2 powi (E - 52)"
    using assms by (simp add: ulp_of_def E_def max_def)
  have split: "(2::rat) powi 52 * 2 powi (E - 52) = 2 powi E"
  proof -
    have "(2::rat) powi 52 * 2 powi (E - 52) = 2 powi (52 + (E - 52))"
      by (rule power_int_add [symmetric]) simp
    moreover have "52 + (E - 52) = E" by simp
    ultimately show ?thesis by (simp only:)
  qed
  have k: "(of_int (2 ^ 52) :: rat) = 2 powi 52" by simp
  have "(2::rat) powi 52 * ulp_of x = 2 powi E"
    by (simp only: u split)
  also have "\<dots> \<le> x" unfolding E_def by (rule floor_log2_bounds(1) [OF assms(1)])
  finally have "2 powi 52 \<le> x / ulp_of x"
    using ulp_of_pos [of x] by (simp add: le_divide_eq)
  then have "of_int (2 ^ 52) \<le> x / ulp_of x" by (simp only: k)
  then have "round_half_even (of_int (2 ^ 52)) \<le> round_half_even (x / ulp_of x)"
    by (rule round_half_even_mono)
  then have "2 ^ 52 \<le> round_half_even (x / ulp_of x)"
    by (simp only: round_half_even_of_int)
  then have "(of_int (2 ^ 52) :: rat) \<le> of_int (round_half_even (x / ulp_of x))"
    by (simp only: of_int_le_iff)
  then have "of_int (2 ^ 52) * ulp_of x \<le> of_int (round_half_even (x / ulp_of x)) * ulp_of x"
    using ulp_of_pos [of x] by (intro mult_right_mono) simp_all
  moreover have "of_int (2 ^ 52) * ulp_of x = 2 powi E"
    by (simp only: k u split)
  ultimately show ?thesis
    using assms by (simp add: to_double_scaled E_def)
qed

text \<open>Rounding to the nearest double keeps the order of non-negative numbers.\<close>

lemma to_double_mono:
  assumes "0 \<le> x" "x \<le> y"
  shows "to_double x \<le> to_double y"
proof (cases "x = 0")
  case True
  with assms to_double_nonneg [of y] show ?thesis by (simp add: to_double_def)
next
  case False
  with assms have x: "0 < x" and y: "0 < y" by simp_all
  from floor_log2_mono [OF x assms(2)]
  have le: "max (floor_log2 x) (- 1022) \<le> max (floor_log2 y) (- 1022)" by simp
  show ?thesis
  proof (cases "max (floor_log2 x) (- 1022) = max (floor_log2 y) (- 1022)")
    case True
    with x y have u: "ulp_of x = ulp_of y" by (simp add: ulp_of_def)
    from assms(2) ulp_of_pos [of y] have "x / ulp_of y \<le> y / ulp_of y"
      by (simp add: divide_right_mono)
    then have "round_half_even (x / ulp_of y) \<le> round_half_even (y / ulp_of y)"
      by (rule round_half_even_mono)
    then have "(of_int (round_half_even (x / ulp_of y)) :: rat) \<le> of_int (round_half_even (y / ulp_of y))"
      by (simp only: of_int_le_iff)
    then have "of_int (round_half_even (x / ulp_of y)) * ulp_of y
        \<le> of_int (round_half_even (y / ulp_of y)) * ulp_of y"
      using ulp_of_pos [of y] by (intro mult_right_mono) simp_all
    with x y show ?thesis by (simp add: to_double_scaled u)
  next
    case False
    with le have lt: "max (floor_log2 x) (- 1022) + 1 \<le> max (floor_log2 y) (- 1022)" by simp
    then have ey: "- 1022 \<le> floor_log2 y" "max (floor_log2 y) (- 1022) = floor_log2 y" by simp_all
    have "to_double x \<le> 2 powi (max (floor_log2 x) (- 1022) + 1)" by (rule to_double_upper [OF x])
    also have "\<dots> \<le> 2 powi floor_log2 y"
      using lt ey by (intro power_int_increasing) simp_all
    also have "\<dots> \<le> to_double y" by (rule to_double_lower [OF y ey(1)])
    finally show ?thesis .
  qed
qed

lemma to_double_0: "to_double 0 = 0"
  by (simp add: to_double_def)

lemma to_double_1: "to_double 1 = 1"
  by code_simp

lemma to_double_100: "to_double 100 = 100"
  by code_simp

lemma py_round1_0: "py_round1 0 = 0"
  by code_simp

lemma py_round1_100: "py_round1 100 = 100"
  by code_simp

lemma py_round1_mono:
  assumes "0 \<le> x" "x \<le> y"
  shows "py_round1 x \<le> py_round1 y"
proof -
  from assms have "0 \<le> x * 10" and "x * 10 \<le> y * 10" by simp_all
  then have "0 \<le> round_half_even (x * 10)"
    and "round_half_even (x * 10) \<le> round_half_even (y * 10)"
    by (simp_all add: round_half_even_nonneg round_half_even_mono)
  then have "(0::rat) \<le> of_int (round_half_even (x * 10)) / 10"
    and "(of_int (round_half_even (x * 10)) :: rat) / 10 \<le> of_int (round_half_even (y * 10)) / 10"
    by (simp_all add: divide_right_mono)
  then show ?thesis
    unfolding py_round1_def by (rule to_double_mono)
qed

text \<open>The percent as the loop and the hook compute it, for a positive total: it keeps
  the order of the byte counts, is not negative, and is at most 100 up to the total.\<close>

lemma percent_mono:
  assumes "0 < t" "0 \<le> a" "a \<le> b"
  shows "py_round1 (py_mul (py_truediv a t) 100) \<le> py_round1 (py_mul (py_truediv b t) 100)"
proof -
  from assms have "0 \<le> a / t" and "a / t \<le> b / t" by (simp_all add: divide_right_mono)
  then have q: "to_double (a / t) \<le> to_double (b / t)" and q0: "0 \<le> to_double (a / t)"
    by (simp_all add: to_double_mono to_double_nonneg)
  then have "0 \<le> to_double (a / t) * 100" and "to_double (a / t) * 100 \<le> to_double (b / t) * 100"
    by simp_all
  then have "0 \<le> to_double (to_double (a / t) * 100)"
    and "to_double (to_double (a / t) * 100) \<le> to_double (to_double (b / t) * 100)"
    by (simp_all add: to_double_mono to_double_nonneg)
  then show ?thesis
    unfolding py_mul_def py_truediv_def by (rule py_round1_mono)
qed

lemma percent_range:
  assumes "0 < t" "0 \<le> a"
  shows "0 \<le> py_round1 (py_mul (py_truediv a t) 100)"
    and "a \<le> t \<Longrightarrow> py_round1 (py_mul (py_truediv a t) 100) \<le> 100"
proof -
  from assms have "0 \<le> a / t" by simp
  then have q0: "0 \<le> to_double (a / t)" by (rule to_double_nonneg)
  then have "0 \<le> to_double (a / t) * 100" by simp
  then have m0: "0 \<le> to_double (to_double (a / t) * 100)" by (rule to_double_nonneg)
  from py_round1_mono [OF order_refl m0]
  show "0 \<le> py_round1 (py_mul (py_truediv a t) 100)"
    by (simp add: py_round1_0 py_mul_def py_truediv_def)
  assume "a \<le> t"
  with assms have "a / t \<le> 1" by simp
  from to_double_mono [OF \<open>0 \<le> a / t\<close> this] have "to_double (a / t) \<le> 1"
    by (simp only: to_double_1)
  then have "to_double (a / t) * 100 \<le> 100" by simp
  from to_double_mono [OF \<open>0 \<le> to_double (a / t) * 100\<close> this]
  have "to_double (to_double (a / t) * 100) \<le> 100"
    by (simp only: to_double_100)
  from py_round1_mono [OF m0 this]
  show "py_round1 (py_mul (py_truediv a t) 100) \<le> 100"
    by (simp only: py_round1_100 py_mul_def py_truediv_def)
qed

lemma running_totals_range:
  "x \<in> set (running_totals d cs) \<Longrightarrow> d \<le> x \<and> x \<le> d + sum_list cs"
  by (induction cs arbitrary: d) (fastforce split: if_splits)+

lemma running_totals_sorted: "sorted (running_totals d cs)"
proof (induction cs arbitrary: d)
  case Nil
  then show ?case by simp
next
  case (Cons c cs)
  from running_totals_range have "\<forall>x\<in>set (running_totals (d + c) cs). d + c \<le> x"
    by blast
  with Cons show ?case by simp
qed

lemma logged_percents_append:
  "logged_percents sid (xs @ ys) = logged_percents sid xs @ logged_percents sid ys"
  by (simp add: logged_percents_def map_filter_def)

lemma logged_percents_downloading:
  "logged_percents sid (map (\<lambda>d. (sid, downloading_snapshot (f d) t)) ds)
     = map (\<lambda>d. py_round1 (py_mul (py_truediv (f d) t) 100)) ds"
  by (induction ds) (simp_all add: logged_percents_def map_filter_def downloading_snapshot_def)

lemma file_write_log: "progress_log (file_write p n st) = progress_log st"
  by (simp add: file_write_def)

lemma download_chunks_log:
  "total_size \<noteq> 0 \<Longrightarrow>
   progress_log (download_chunks e sid temp_file total_size done_bytes cs st)
     = progress_log st
       @ map (\<lambda>d. (sid, downloading_snapshot (of_nat d) (of_int total_size)))
           (running_totals done_bytes cs)"
  by (induction cs arbitrary: done_bytes st)
     (simp_all add: Let_def update_progress_frame file_write_log)

lemma download_chunks_percents:
  assumes "total_size \<noteq> 0"
  shows "logged_percents sid (drop (length (progress_log st))
           (progress_log (download_chunks e sid temp_file total_size done_bytes cs st)))
         = map (\<lambda>d. py_round1 (py_mul (py_truediv (of_nat d) (of_int total_size)) 100))
             (running_totals done_bytes cs)"
  by (simp add: download_chunks_log [OF assms] logged_percents_downloading)

lemma sorted_map_mono:
  "sorted xs \<Longrightarrow> (\<And>a b. a \<in> set xs \<Longrightarrow> b \<in> set xs \<Longrightarrow> a \<le> b \<Longrightarrow> f a \<le> f b)
   \<Longrightarrow> sorted (map f xs)"
  by (induction xs) auto

lemma loop_percents_ok:
  fixes total_size :: int and done_bytes :: nat and cs :: "nat list"
  assumes "0 < total_size"
  defines "ps \<equiv> map (\<lambda>d. py_round1 (py_mul (py_truediv (of_nat d) (of_int total_size)) 100))
                  (running_totals done_bytes cs)"
  shows "sorted ps" and "list_all (\<lambda>p. 0 \<le> p) ps"
    and "int (done_bytes + sum_list cs) \<le> total_size \<Longrightarrow> list_all (\<lambda>p. p \<le> 100) ps"
proof -
  from assms(1) have t: "(0::rat) < of_int total_size" by simp
  show "sorted ps"
    unfolding ps_def
  proof (rule sorted_map_mono [OF running_totals_sorted])
    fix a b :: nat
    assume "a \<le> b"
    then have "(of_nat a :: rat) \<le> of_nat b" and "(0::rat) \<le> of_nat a" by simp_all
    from percent_mono [OF t this(2) this(1)]
    show "py_round1 (py_mul (py_truediv (of_nat a) (of_int total_size)) 100)
        \<le> py_round1 (py_mul (py_truediv (of_nat b) (of_int total_size)) 100)" .
  qed
  have "0 \<le> py_round1 (py_mul (py_truediv (of_nat x) (of_int total_size)) 100)" for x :: nat
    by (rule percent_range(1) [OF t]) simp
  then show "list_all (\<lambda>p. 0 \<le> p) ps"
    unfolding ps_def by (simp only: list_all_iff set_map ball_simps) blast
  assume le: "int (done_bytes + sum_list cs) \<le> total_size"
  have "py_round1 (py_mul (py_truediv (of_nat x) (of_int total_size)) 100) \<le> 100"
    if "x \<in> set (running_totals done_bytes cs)" for x
  proof -
    from running_totals_range [OF that] le have "int x \<le> total_size" by linarith
    then have "(of_nat x :: rat) \<le> of_int total_size"
      by (metis of_int_le_iff of_int_of_nat_eq)
    then show ?thesis by (intro percent_range(2) [OF t]) simp_all
  qed
  then show "list_all (\<lambda>p. p \<le> 100) ps"
    unfolding ps_def by (simp only: list_all_iff set_map ball_simps) blast
qed

lemma progress_hook_steady:
  assumes "steady t d" "0 < t"
  shows "progress_hook e sid d st = update_progress e sid (downloading_snapshot (hook_done d) t) st"
  using assms
  by (auto simp: steady_def hook_total_def hook_done_def progress_hook_def
      split: pynum.splits if_splits)

lemma fold_progress_hook_log:
  "list_all (steady t) ds \<Longrightarrow> 0 < t \<Longrightarrow>
   progress_log (fold (progress_hook e sid) ds st)
     = progress_log st @ map (\<lambda>d. (sid, downloading_snapshot (hook_done d) t)) ds"
proof (induction ds arbitrary: st)
  case Nil
  then show ?case by simp
next
  case (Cons d ds)
  from Cons.prems have d: "steady t d" and ds: "list_all (steady t) ds" by simp_all
  have "progress_log (progress_hook e sid d st)
      = progress_log st @ [(sid, downloading_snapshot (hook_done d) t)]"
    by (simp only: progress_hook_steady [OF d Cons.prems(2)] update_progress_frame)
  with Cons.IH [OF ds Cons.prems(2)] show ?case by simp
qed

lemma hook_percents_ok:
  fixes t :: rat and ds :: "hook_event list"
  assumes "list_all (steady t) ds" "0 < t" "sorted (map hook_done ds)"
  defines "ps \<equiv> map (\<lambda>d. py_round1 (py_mul (py_truediv (hook_done d) t) 100)) ds"
  shows "sorted ps" and "list_all (\<lambda>p. 0 \<le> p \<and> p \<le> 100) ps"
proof -
  have rng: "0 \<le> hook_done d \<and> hook_done d \<le> t" if "d \<in> set ds" for d
    using that assms(1) by (auto simp: list_all_iff steady_def hook_done_def split: pynum.splits)
  have "ps = map (\<lambda>n. py_round1 (py_mul (py_truediv n t) 100)) (map hook_done ds)"
    by (simp add: ps_def comp_def)
  moreover have "sorted (map (\<lambda>n. py_round1 (py_mul (py_truediv n t) 100)) (map hook_done ds))"
  proof (rule sorted_map_mono [OF assms(3)])
    fix a b
    assume "a \<in> set (map hook_done ds)" and ab: "a \<le> b"
    then have "0 \<le> a" using rng by auto
    from percent_mono [OF assms(2) this ab]
    show "py_round1 (py_mul (py_truediv a t) 100) \<le> py_round1 (py_mul (py_truediv b t) 100)" .
  qed
  ultimately show "sorted ps" by simp
  from rng have "0 \<le> py_round1 (py_mul (py_truediv (hook_done d) t) 100)
      \<and> py_round1 (py_mul (py_truediv (hook_done d) t) 100) \<le> 100"
    if "d \<in> set ds" for d
    using that percent_range [OF assms(2), of "hook_done d"] by blast
  then show "list_all (\<lambda>p. 0 \<le> p \<and> p \<le> 100) ps"
    unfolding ps_def by (simp only: list_all_iff set_map ball_simps) blast
qed

text \<open>
  C4 (as amended). The percents the chunk loop of the direct mode writes for a session
  (the \<open>downloading\<close> snapshots logged by one run of the loop, for a known positive total
  size and fewer than \<open>2 ^ 1000\<close> bytes received) are non-decreasing and not negative,
  and they do not exceed 100 as long as the bytes received do not exceed the
  \<open>Content-Length\<close>. For the yt-dlp hook: over callbacks with status \<open>downloading\<close> that
  are measured against one positive total of at most \<open>2 ^ 53\<close> bytes (\<open>total_bytes\<close>, or
  \<open>total_bytes_estimate\<close> where \<open>total_bytes\<close> is missing, \<open>None\<close> or 0) and whose byte
  counts lie between 0 and that total and do not decrease, the percents written are
  non-decreasing and within 0 and 100. The percents are the doubles the code computes.
\<close>

theorem downloading_percent_monotone:
  "(0 < total_size \<and> done_bytes + sum_list cs < 2 ^ 1000 \<longrightarrow>
      (let ps = logged_percents sid (drop (length (progress_log st))
                  (progress_log (download_chunks e sid temp_file total_size done_bytes cs st)))
       in sorted ps \<and> list_all (\<lambda>p. 0 \<le> p) ps
          \<and> (int (done_bytes + sum_list cs) \<le> total_size \<longrightarrow> list_all (\<lambda>p. p \<le> 100) ps)))
   \<and> (0 < t \<and> t \<le> 2 ^ 53 \<and> list_all (steady t) ds \<and> sorted (map hook_done ds) \<longrightarrow>
      (let ps = logged_percents sid (drop (length (progress_log st))
                  (progress_log (fold (progress_hook e sid) ds st)))
       in sorted ps \<and> list_all (\<lambda>p. 0 \<le> p \<and> p \<le> 100) ps))"
proof (intro conjI impI)
  assume "0 < total_size \<and> done_bytes + sum_list cs < 2 ^ 1000"
  then have t: "0 < total_size" by simp
  then have nz: "total_size \<noteq> 0" by simp
  show "let ps = logged_percents sid (drop (length (progress_log st))
                  (progress_log (download_chunks e sid temp_file total_size done_bytes cs st)))
       in sorted ps \<and> list_all (\<lambda>p. 0 \<le> p) ps
          \<and> (int (done_bytes + sum_list cs) \<le> total_size \<longrightarrow> list_all (\<lambda>p. p \<le> 100) ps)"
    unfolding Let_def download_chunks_percents [OF nz]
    using loop_percents_ok [OF t] by blast
next
  assume a: "0 < t \<and> t \<le> 2 ^ 53 \<and> list_all (steady t) ds \<and> sorted (map hook_done ds)"
  then have "progress_log (fold (progress_hook e sid) ds st)
      = progress_log st @ map (\<lambda>d. (sid, downloading_snapshot (hook_done d) t)) ds"
    by (intro fold_progress_hook_log) simp_all
  then have "drop (length (progress_log st)) (progress_log (fold (progress_hook e sid) ds st))
      = map (\<lambda>d. (sid, downloading_snapshot (hook_done d) t)) ds"
    by simp
  then have log: "logged_percents sid (drop (length (progress_log st))
                  (progress_log (fold (progress_hook e sid) ds st)))
      = map (\<lambda>d. py_round1 (py_mul (py_truediv (hook_done d) t) 100)) ds"
    by (simp only: logged_percents_downloading)
  from a show "let ps = logged_percents sid (drop (length (progress_log st))
                  (progress_log (fold (progress_hook e sid) ds st)))
       in sorted ps \<and> list_all (\<lambda>p. 0 \<le> p \<and> p \<le> 100) ps"
    unfolding Let_def log using hook_percents_ok by blast
qed

theorem downloading_percent_monotone_witness:
  "logged_percents ''s1'' (drop (length (progress_log empty_state))
      (progress_log (download_chunks base_env ''s1'' ''/tmp/f'' 10 0 [3, 0, 5] empty_state)))
     = [30, 80]
   \<and> sorted (logged_percents ''s1'' (drop (length (progress_log empty_state))
      (progress_log (download_chunks base_env ''s1'' ''/tmp/f'' 10 0 [3, 0, 5] empty_state))))
   \<and> list_all (\<lambda>p. p \<le> 100) (logged_percents ''s1'' (drop (length (progress_log empty_state))
      (progress_log (download_chunks base_env ''s1'' ''/tmp/f'' 10 0 [3, 0, 5] empty_state))))
   \<and> logged_percents ''s1'' (drop (length (progress_log empty_state)) (progress_log hooks_st))
     = [50, 100]
   \<and> sorted (logged_percents ''s1'' (drop (length (progress_log empty_state)) (progress_log hooks_st)))
   \<and> list_all (\<lambda>p. 0 \<le> p \<and> p \<le> 100)
       (logged_percents ''s1'' (drop (length (progress_log empty_state)) (progress_log hooks_st)))"
proof -
  note th = downloading_percent_monotone [where total_size = 10 and sid = "''s1''"
      and st = empty_state and e = base_env and temp_file = "''/tmp/f''" and done_bytes = 0
      and cs = "[3, 0, 5]" and t = 8
      and ds = "[half_event, finished_event\<lparr>hk_status := ''downloading''\<rparr>]"]
  have h1: "((0::int) < 10 \<and> (0::nat) + sum_list [3, 0, 5] < 2 ^ 1000)
      \<and> int (0 + sum_list [3, 0, 5]) \<le> 10" by simp
  have h2: "(0::rat) < 8 \<and> (8::rat) \<le> 2 ^ 53
      \<and> list_all (steady 8) [half_event, finished_event\<lparr>hk_status := ''downloading''\<rparr>]
      \<and> sorted (map hook_done [half_event, finished_event\<lparr>hk_status := ''downloading''\<rparr>])"
    by (simp add: steady_def hook_total_def hook_done_def half_event_def finished_event_def)
  have v1: "logged_percents ''s1'' (drop (length (progress_log empty_state))
      (progress_log (download_chunks base_env ''s1'' ''/tmp/f'' 10 0 [3, 0, 5] empty_state)))
     = [30, 80]"
    by code_simp
  have v2: "logged_percents ''s1'' (drop (length (progress_log empty_state)) (progress_log hooks_st))
     = [50, 100]"
    by code_simp
  from th h1 have a: "sorted (logged_percents ''s1'' (drop (length (progress_log empty_state))
      (progress_log (download_chunks base_env ''s1'' ''/tmp/f'' 10 0 [3, 0, 5] empty_state))))
    \<and> list_all (\<lambda>p. p \<le> 100) (logged_percents ''s1'' (drop (length (progress_log empty_state))
      (progress_log (download_chunks base_env ''s1'' ''/tmp/f'' 10 0 [3, 0, 5] empty_state))))"
    unfolding Let_def by blast
  from th h2 have b: "sorted (logged_percents ''s1'' (drop (length (progress_log empty_state)) (progress_log hooks_st)))
   \<and> list_all (\<lambda>p. 0 \<le> p \<and> p \<le> 100)
       (logged_percents ''s1'' (drop (length (progress_log empty_state)) (progress_log hooks_st)))"
    unfolding Let_def hooks_st_def by blast
  from v1 v2 a b show ?thesis by blast
qed

text \<open>
  The rounding is that of the doubles: with a \<open>Content-Length\<close> of 80 and chunks of 23
  and 26 bytes the quotients 23/80 and 49/80 fall just below 0.2875 and just above
  0.6125, and the loop writes the doubles nearest to 28.7 and 61.3.
\<close>

lemma download_chunks_rounds_doubles:
  "logged_percents ''s1'' (drop (length (progress_log empty_state))
      (progress_log (download_chunks base_env ''s1'' ''/tmp/f'' 80 0 [23, 26] empty_state)))
     = [to_double (287 / 10), to_double (613 / 10)]"
  by code_simp

lemma open_wb_log:
  "open_wb p st = Inr st' \<Longrightarrow> progress_log st' = progress_log st"
  by (auto simp: open_wb_def split: if_splits)

lemma proxy_download_direct_log:
  assumes "is_safe_public_url e u []" "p \<noteq> ''bilibili_tv''" "requests_get e u = Inr r"
    and "max_bytes e = Inr mx" "\<not> too_large r mx" "content_length r = Number total_size"
    and "total_size \<noteq> 0" "can_create (dirs st @ [mkdtemp e]) (os_path_join (mkdtemp e) fname)"
  shows "progress_log (snd (proxy_download_direct e sid v u f (Some fname) p st))
     = progress_log st
       @ [(sid, plain_snapshot ''downloading'' (''Downloading '' @ p @ '' video...'') 10)]
       @ map (\<lambda>d. (sid, downloading_snapshot (of_nat d) (of_int total_size)))
           (running_totals 0 (chunks r))
       @ [(sid, plain_snapshot ''streaming'' ''Mengirim file ke browser...'' 100)]"
  using assms
  by (simp add: proxy_download_direct_def Let_def open_wb_def update_progress_frame
      register_storage_frame make_temp_dir_def download_chunks_log)

lemma proxy_download_log:
  assumes "get_field (rq_direct_url data) = Some u" "u \<noteq> []"
    and "get_default (rq_platform data) [] = Some ''instagram''"
    and "get_default (rq_filename data) ''video.mp4'' = Some fname"
    and "rq_session_id data = Some sid"
    and "is_safe_public_url e u []" "requests_get e u = Inr r"
    and "max_bytes e = Inr mx" "\<not> too_large r mx" "content_length r = Number total_size"
    and "total_size \<noteq> 0" "can_create (dirs st @ [mkdtemp e]) (os_path_join (mkdtemp e) fname)"
  shows "progress_log (snd (proxy_download e (Some data) st))
     = progress_log st
       @ [(sid, plain_snapshot ''starting'' ''Memulai download...'' 0),
          (sid, plain_snapshot ''downloading'' ''Downloading instagram video...'' 10)]
       @ map (\<lambda>d. (sid, downloading_snapshot (of_nat d) (of_int total_size)))
           (running_totals 0 (chunks r))
       @ [(sid, plain_snapshot ''streaming'' ''Mengirim file ke browser...'' 100)]"
proof -
  let ?st2 = "update_progress e sid (plain_snapshot ''starting'' ''Memulai download...'' 0)
     (upsert_task e sid
        \<lparr>d_platform = Some ''instagram'',
         d_source_url = (if truthy (get_field (rq_video_url data)) then get_field (rq_video_url data)
                         else Some u),
         d_direct_url = Some u, d_requested_filename = Some fname,
         d_status = None, d_message = None\<rparr> st)"
  have d2: "dirs ?st2 = dirs st"
    and l2: "progress_log ?st2 = progress_log st @ [(sid, plain_snapshot ''starting'' ''Memulai download...'' 0)]"
    by (simp_all add: update_progress_frame upsert_task_frame)
  from assms(12) d2 have cc: "can_create (dirs ?st2 @ [mkdtemp e]) (os_path_join (mkdtemp e) fname)"
    by simp
  have ne: "''instagram'' \<noteq> ''bilibili_tv''" by simp
  note log = proxy_download_direct_log [OF assms(6) ne assms(7-11) cc, of sid
      "get_field (rq_video_url data)" "get_field (rq_format_id data)"]
  obtain r0 st0 where res: "proxy_download_direct e sid (get_field (rq_video_url data)) u
      (get_field (rq_format_id data)) (Some fname) ''instagram'' ?st2 = (r0, st0)"
    by (cases "proxy_download_direct e sid (get_field (rq_video_url data)) u
      (get_field (rq_format_id data)) (Some fname) ''instagram'' ?st2")
  from log res l2 have "progress_log st0 = progress_log st
       @ [(sid, plain_snapshot ''starting'' ''Memulai download...'' 0),
          (sid, plain_snapshot ''downloading'' ''Downloading instagram video...'' 10)]
       @ map (\<lambda>d. (sid, downloading_snapshot (of_nat d) (of_int total_size)))
           (running_totals 0 (chunks r))
       @ [(sid, plain_snapshot ''streaming'' ''Mengirim file ke browser...'' 100)]"
    by simp
  moreover from res assms(1-5) have "progress_log (snd (proxy_download e (Some data) st)) = progress_log st0"
    by (auto simp: proxy_download_def Let_def split: sum.splits)
  ultimately show ?thesis by simp
qed

text \<open>
  C4 as stated fails. Before the chunk loop the direct mode stores a \<open>downloading\<close>
  snapshot with the fixed percent 10; the loop then reports the real ratio. For a file
  of 8 MiB received in 16 chunks of 512 KiB the first snapshot of the loop says 6.2 (the
  double nearest to it, 6980579422424269 / 2 ^ 50), so the \<open>downloading\<close> percents of the
  session are 10, 6.2, ... and are not non-decreasing.
\<close>

theorem direct_download_percent_drops:
  "take 2 (logged_percents ''s1''
      (progress_log (snd (proxy_download big_env (Some direct_request) empty_state))))
     = [10, 6980579422424269 / 1125899906842624]
   \<and> \<not> sorted (logged_percents ''s1''
      (progress_log (snd (proxy_download big_env (Some direct_request) empty_state))))"
proof -
  let ?r = "\<lparr>status_code = 200, content_length = Number 8388608, chunks = replicate 16 524288\<rparr>"
  have safe: "is_safe_public_url big_env cdn_url []"
    by (simp add: big_env_def direct_env_def base_env_def cdn_url_def is_safe_public_url_def
        host_is_private_def public_ip_def)
  have rq: "get_field (rq_direct_url direct_request) = Some cdn_url" "cdn_url \<noteq> []"
    "get_default (rq_platform direct_request) [] = Some ''instagram''"
    "get_default (rq_filename direct_request) ''video.mp4'' = Some ''clip.mp4''"
    "rq_session_id direct_request = Some ''s1''"
    by (simp_all add: direct_request_def cdn_url_def)
  have ev: "requests_get big_env cdn_url = Inr ?r" "max_bytes big_env = Inr (500 * 1024 * 1024)"
    "\<not> too_large ?r (500 * 1024 * 1024)" "content_length ?r = Number 8388608"
    "(8388608::int) \<noteq> 0"
    by (simp_all add: big_env_def direct_env_def base_env_def max_bytes_def too_large_def)
  have cc: "can_create (dirs empty_state @ [mkdtemp big_env]) (os_path_join (mkdtemp big_env) ''clip.mp4'')"
    by (simp add: can_create_def os_path_dirname_def os_path_join_def empty_state_def big_env_def
        direct_env_def base_env_def)
  have rt: "running_totals 0 (replicate 16 524288)
      = 524288 # running_totals 524288 (replicate 15 524288)"
  proof -
    have "replicate 16 c = c # replicate 15 c" for c :: nat
      by (simp add: numeral_eq_Suc)
    then show ?thesis by simp
  qed
  have "py_round1 (py_mul (py_truediv 1 16) 100) = 6980579422424269 / 1125899906842624"
    by code_simp
  moreover have "py_truediv (of_nat 524288) (of_int 8388608) = py_truediv 1 16"
    by (simp add: py_truediv_def)
  ultimately have pct: "py_round1 (py_mul (py_truediv (of_nat 524288) (of_int 8388608)) 100)
      = 6980579422424269 / 1125899906842624"
    by (simp only:)
  let ?G = "\<lambda>d. py_round1 (py_mul (py_truediv (of_nat d) (of_int 8388608)) 100)"
  have head: "logged_percents ''s1''
      [(''s1'', plain_snapshot ''starting'' ''Memulai download...'' 0),
       (''s1'', plain_snapshot ''downloading'' ''Downloading instagram video...'' 10)] = [10]"
    by (simp add: logged_percents_def map_filter_def plain_snapshot_def)
  have last: "logged_percents ''s1''
      [(''s1'', plain_snapshot ''streaming'' ''Mengirim file ke browser...'' 100)] = []"
    by (simp add: logged_percents_def map_filter_def plain_snapshot_def)
  have init: "progress_log empty_state = []"
    by (simp add: empty_state_def)
  have "logged_percents ''s1''
      (progress_log (snd (proxy_download big_env (Some direct_request) empty_state)))
    = [10] @ map ?G (running_totals 0 (replicate 16 524288)) @ []"
    unfolding proxy_download_log [OF rq safe ev cc] init
    by (simp only: logged_percents_append logged_percents_downloading head last
        logged_percents_def [of _ "[]"] map_filter_simps append_Nil
        http_response.simps)
  also have "\<dots> = 10 # 6980579422424269 / 1125899906842624
      # map ?G (running_totals 524288 (replicate 15 524288))"
    by (simp only: rt list.map pct append_Cons append_Nil append_Nil2)
  finally have log: "logged_percents ''s1''
      (progress_log (snd (proxy_download big_env (Some direct_request) empty_state)))
    = 10 # 6980579422424269 / 1125899906842624
      # map ?G (running_totals 524288 (replicate 15 524288))" .
  show ?thesis unfolding log by simp
qed

end
